theory Spec2Isabelle
  imports Main "HOL-Library.Sublist" "HOL-Library.Word"
begin

section \<open>JavaScript strings\<close>

text \<open>
  A JavaScript string is modelled as a \<^typ>\<open>string\<close>, one \<^typ>\<open>char\<close> per code unit
  (code units below 256). The helpers below follow the ECMAScript definitions of the
  string methods the sources call.
\<close>

text \<open>The regular expression class \<^verbatim>\<open>\s\<close> (and the characters \<^verbatim>\<open>trim\<close> strips):
  TAB, LF, VT, FF, CR, space and NBSP.\<close>

definition isSpace :: "char \<Rightarrow> bool" where
  "isSpace c = (c \<in> set [CHR 0x09, CHR 0x0A, CHR 0x0B, CHR 0x0C, CHR 0x0D, CHR '' '', CHR 0xA0])"

text \<open>The regular expression class \<^verbatim>\<open>\w\<close>: \<^verbatim>\<open>[A-Za-z0-9_]\<close>.\<close>

definition isWordChar :: "char \<Rightarrow> bool" where
  "isWordChar c = (c \<in> set ''ABCDEFGHIJKLMNOPQRSTUVWXYZabcdefghijklmnopqrstuvwxyz0123456789_'')"

definition trim :: "string \<Rightarrow> string" where
  "trim s = rev (dropWhile isSpace (rev (dropWhile isSpace s)))"

definition startsWith :: "string \<Rightarrow> string \<Rightarrow> bool" where
  "startsWith s p = prefix p s"

definition endsWith :: "string \<Rightarrow> string \<Rightarrow> bool" where
  "endsWith s p = prefix (rev p) (rev s)"

text \<open>\<^verbatim>\<open>s.includes(sub)\<close>: \<^verbatim>\<open>sub\<close> occurs in \<^verbatim>\<open>s\<close> at some offset.\<close>

definition includesStr :: "string \<Rightarrow> string \<Rightarrow> bool" where
  "includesStr s sub = list_ex (\<lambda>i. prefix sub (drop i s)) [0..<Suc (length s)]"

text \<open>\<^verbatim>\<open>s.slice(a, -1)\<close> for \<^verbatim>\<open>a \<le> s.length\<close>: drop \<^verbatim>\<open>a\<close> code units and the last one.\<close>

definition sliceButLast :: "nat \<Rightarrow> string \<Rightarrow> string" where
  "sliceButLast a s = butlast (drop a s)"

text \<open>\<^verbatim>\<open>s.split(/\s+/)\<close>: the pieces between maximal whitespace runs; a run at either end
  leaves an empty piece there.\<close>

fun splitSpaces :: "string \<Rightarrow> string list" where
  "splitSpaces [] = [[]]"
| "splitSpaces (c # cs) =
     (if isSpace c then (if cs \<noteq> [] \<and> isSpace (hd cs) then splitSpaces cs else [] # splitSpaces cs)
      else (case splitSpaces cs of [] \<Rightarrow> [[c]] | w # ws \<Rightarrow> (c # w) # ws))"

text \<open>\<^verbatim>\<open>s.split(/\s+|,/)\<close>: as above, and every single comma separates too.\<close>

fun splitSpacesOrComma :: "string \<Rightarrow> string list" where
  "splitSpacesOrComma [] = [[]]"
| "splitSpacesOrComma (c # cs) =
     (if c = CHR '','' then [] # splitSpacesOrComma cs
      else if isSpace c then
        (if cs \<noteq> [] \<and> isSpace (hd cs) then splitSpacesOrComma cs else [] # splitSpacesOrComma cs)
      else (case splitSpacesOrComma cs of [] \<Rightarrow> [[c]] | w # ws \<Rightarrow> (c # w) # ws))"

text \<open>\<^verbatim>\<open>s.split(sep)\<close> for a non-empty separator string: cut at each occurrence, found from
  left to right without overlap.\<close>

function splitOn :: "string \<Rightarrow> string \<Rightarrow> string \<Rightarrow> string list" where
  "splitOn sep cur [] = [rev cur]"
| "splitOn sep cur (c # cs) =
     (if sep \<noteq> [] \<and> prefix sep (c # cs)
      then rev cur # splitOn sep [] (drop (length sep) (c # cs))
      else splitOn sep (c # cur) cs)"
  by pat_completeness auto
termination
  by (relation "measure (\<lambda>(sep, cur, rest). length rest)") (auto simp: neq_Nil_conv)

definition splitStr :: "string \<Rightarrow> string \<Rightarrow> string list" where
  "splitStr s sep = splitOn sep [] s"

text \<open>\<^verbatim>\<open>xs.join(sep)\<close>.\<close>

fun join :: "string \<Rightarrow> string list \<Rightarrow> string" where
  "join sep [] = []"
| "join sep [w] = w"
| "join sep (w # v # ws) = w @ sep @ join sep (v # ws)"

text \<open>
  \<^verbatim>\<open>toUpperCase\<close> on code units below 256. The letters a to z and the Latin-1 letters
  0xE0 to 0xFE (the division sign 0xF7 apart) move down by 0x20, and the sharp s 0xDF
  becomes the two letters \<^verbatim>\<open>SS\<close>. The capitals of the micro sign 0xB5 and of 0xFF lie
  outside the 8-bit code units: these two are kept as they are, which the classifier
  cannot tell apart, since it only compares upper-cased strings with each other and no
  other code unit is mapped to 0xB5 or 0xFF.
\<close>

definition upperChar :: "char \<Rightarrow> string" where
  "upperChar c =
     (let n = (of_char c :: nat) in
      if 97 \<le> n \<and> n \<le> 122 then [char_of (n - 32)]
      else if n = 223 then ''SS''
      else if 224 \<le> n \<and> n \<le> 254 \<and> n \<noteq> 247 then [char_of (n - 32)]
      else [c])"

definition toUpperCase :: "string \<Rightarrow> string" where
  "toUpperCase s = concat (map upperChar s)"

subsection \<open>Numbers from strings\<close>

fun indexOf :: "'a \<Rightarrow> 'a list \<Rightarrow> nat option" where
  "indexOf x [] = None"
| "indexOf x (y # ys) = (if x = y then Some 0 else map_option Suc (indexOf x ys))"

definition digitValue :: "char \<Rightarrow> nat option" where
  "digitValue c = (case indexOf c ''0123456789abcdef'' of
      Some d \<Rightarrow> Some d
    | None \<Rightarrow> map_option (\<lambda>d. d + 10) (indexOf c ''ABCDEF''))"

text \<open>All of \<^verbatim>\<open>cs\<close> read as digits of the radix, most significant first.\<close>

fun digitsValue :: "nat \<Rightarrow> nat \<Rightarrow> string \<Rightarrow> nat option" where
  "digitsValue r acc [] = Some acc"
| "digitsValue r acc (c # cs) =
     (case digitValue c of
        None \<Rightarrow> None
      | Some d \<Rightarrow> if d < r then digitsValue r (acc * r + d) cs else None)"

definition nonEmptyDigits :: "nat \<Rightarrow> string \<Rightarrow> nat option" where
  "nonEmptyDigits r cs = (if cs = [] then None else digitsValue r 0 cs)"

text \<open>
  \<^verbatim>\<open>BigInt(str)\<close> (ECMAScript StringToBigInt): surrounding whitespace is dropped; the empty
  string is 0; a \<^verbatim>\<open>0x\<close>, \<^verbatim>\<open>0o\<close> or \<^verbatim>\<open>0b\<close> prefix selects the radix and takes no sign;
  otherwise an optional sign and decimal digits. \<^const>\<open>None\<close> is the SyntaxError.
\<close>

definition BigInt :: "string \<Rightarrow> int option" where
  "BigInt str =
     (let s = trim str in
      if s = [] then Some 0
      else if startsWith s ''0x'' \<or> startsWith s ''0X'' then map_option int (nonEmptyDigits 16 (drop 2 s))
      else if startsWith s ''0o'' \<or> startsWith s ''0O'' then map_option int (nonEmptyDigits 8 (drop 2 s))
      else if startsWith s ''0b'' \<or> startsWith s ''0B'' then map_option int (nonEmptyDigits 2 (drop 2 s))
      else if startsWith s ''-'' then map_option (\<lambda>n. - int n) (nonEmptyDigits 10 (drop 1 s))
      else if startsWith s ''+'' then map_option int (nonEmptyDigits 10 (drop 1 s))
      else map_option int (nonEmptyDigits 10 s))"

section \<open>Stack notation decoder (src/runner/stack.ts)\<close>

text \<open>
  The values of \<^verbatim>\<open>StackElement\<close>: \<^verbatim>\<open>bigint\<close>, \<^verbatim>\<open>null\<close>, a nested array, the
  \<^verbatim>\<open>@ton/core\<close> objects Cell, Slice, Builder and Address, and a plain string for a
  token that was not recognised. \<open>Undefined\<close> is the JavaScript value \<^verbatim>\<open>undefined\<close>, which
  \<^verbatim>\<open>parseStackElement\<close> returns when a bag of cells has no root.
\<close>

datatype ('c, 's, 'b, 'a) StackElement =
    Integer int
  | Null
  | Tuple "('c, 's, 'b, 'a) StackElement list"
  | CellValue 'c
  | SliceValue 's
  | BuilderValue 'b
  | AddressValue 'a
  | Unrecognized string
  | Undefined

text \<open>
  The outcome of \<^verbatim>\<open>Cell.fromBoc(Buffer.from(h, 'hex'))[0]\<close>: the call throws, or the bag
  of cells has no root and the element at index 0 is \<^verbatim>\<open>undefined\<close>, or it is the first
  root.
\<close>

datatype 'c bocResult = BocThrows | BocNoRoot | BocRoot 'c

text \<open>
  The \<^verbatim>\<open>@ton/core\<close> calls of the decoder, taken as parameters; \<^const>\<open>None\<close> is a thrown
  exception. \<open>fromBocHex h\<close> is \<^verbatim>\<open>Cell.fromBoc(Buffer.from(h, 'hex'))[0]\<close>. A continuation
  token gives a Cell, as a cell token does. A method called on \<^verbatim>\<open>undefined\<close> throws, so
  a slice or builder token whose bag of cells has no root ends in the \<^verbatim>\<open>catch\<close>.
\<close>

record ('c, 's, 'b, 'a) tonCore =
  fromBocHex :: "string \<Rightarrow> 'c bocResult"
  asSlice :: "'c \<Rightarrow> 's option"
  remainingBits :: "'s \<Rightarrow> nat"
  remainingRefs :: "'s \<Rightarrow> nat"
  loadAddress :: "'s \<Rightarrow> 'a option"
  asBuilder :: "'c \<Rightarrow> 'b option"

function parseStackElement ::
  "('c, 's, 'b, 'a) tonCore \<Rightarrow> string \<Rightarrow> ('c, 's, 'b, 'a) StackElement" where
  "parseStackElement L word =
     (if word = ''()'' then Null
      else if startsWith word ''('' \<and> endsWith word '')'' then
        Tuple [parseStackElement L (sliceButLast 1 word)]
      else if startsWith word ''C{'' then
        (case fromBocHex L (sliceButLast 2 word) of
           BocThrows \<Rightarrow> Unrecognized word
         | BocNoRoot \<Rightarrow> Undefined
         | BocRoot cell \<Rightarrow> CellValue cell)
      else if startsWith word ''Cont{'' then
        (case fromBocHex L (sliceButLast 5 word) of
           BocThrows \<Rightarrow> Unrecognized word
         | BocNoRoot \<Rightarrow> Undefined
         | BocRoot cell \<Rightarrow> CellValue cell)
      else if startsWith word ''CS{'' then
        (case fromBocHex L (sliceButLast 3 word) of
           BocThrows \<Rightarrow> Unrecognized word
         | BocNoRoot \<Rightarrow> Unrecognized word
         | BocRoot cell \<Rightarrow>
            (case asSlice L cell of
               None \<Rightarrow> Unrecognized word
             | Some sl \<Rightarrow>
                if remainingBits L sl = 267 \<and> remainingRefs L sl = 0 then
                  (case loadAddress L sl of
                     None \<Rightarrow> Unrecognized word
                   | Some a \<Rightarrow> AddressValue a)
                else SliceValue sl))
      else if startsWith word ''BC{'' then
        (case fromBocHex L (sliceButLast 3 word) of
           BocThrows \<Rightarrow> Unrecognized word
         | BocNoRoot \<Rightarrow> Unrecognized word
         | BocRoot cell \<Rightarrow>
            (case asBuilder L cell of
               None \<Rightarrow> Unrecognized word
             | Some builder \<Rightarrow> BuilderValue builder))
      else
        (case BigInt word of
           None \<Rightarrow> Unrecognized word
         | Some n \<Rightarrow> Integer n))"
  by pat_completeness auto
termination
  by (relation "measure (\<lambda>(L, word). length word)")
     (auto simp: sliceButLast_def startsWith_def prefix_def)

declare parseStackElement.simps [simp del]

text \<open>What \<^verbatim>\<open>parseStack\<close> throws: its own \<^verbatim>\<open>Error\<close>, or the TypeError of calling
  \<^verbatim>\<open>push\<close> on \<^verbatim>\<open>undefined\<close>.\<close>

datatype jsError = Error string | TypeError string

text \<open>\<^verbatim>\<open>line.replace(/\[/g, ' [ ')\<close> and \<^verbatim>\<open>line.replace(/\]/g, ' ] ')\<close>.\<close>

definition padBrackets :: "string \<Rightarrow> string" where
  "padBrackets line =
     concat (map (\<lambda>c. if c = CHR ''['' then '' [ '' else if c = CHR '']'' then '' ] '' else [c]) line)"

text \<open>
  The loop of \<^verbatim>\<open>parseStack\<close> over the remaining words. \<open>stackStack\<close> holds the open
  frames, the most recently pushed one first (the head is the last element of the
  JavaScript array, and \<^verbatim>\<open>stackStack[0]\<close> is the last element of the list). The result
  \<^const>\<open>None\<close> is \<^verbatim>\<open>undefined\<close>. A word that decodes to \<^verbatim>\<open>undefined\<close> is passed over:
  nothing is pushed, and nothing is raised when no frame is open.
\<close>

fun parseWords ::
  "('c, 's, 'b, 'a) tonCore \<Rightarrow> ('c, 's, 'b, 'a) StackElement list list \<Rightarrow> string list
     \<Rightarrow> jsError + ('c, 's, 'b, 'a) StackElement list option" where
  "parseWords L stackStack [] =
     Inr (if stackStack = [] then None else Some (last stackStack))"
| "parseWords L stackStack (w # ws) =
     (let word = trim w in
      if word \<in> set [''stack:'', ''''] then parseWords L stackStack ws
      else if word = ''['' then parseWords L ([] # stackStack) ws
      else if word = '']'' then
        (case stackStack of
           [] \<Rightarrow> Inl (Error ''Something unexpected. Tuple ended without start.'')
         | tuple # [] \<Rightarrow> Inr (Some tuple)
         | tuple # outer # rest \<Rightarrow> parseWords L ((outer @ [Tuple tuple]) # rest) ws)
      else
        (let stackElement = parseStackElement L word in
         if stackElement \<noteq> Undefined then
           (case stackStack of
              [] \<Rightarrow> Inl (TypeError ''Cannot read properties of undefined (reading 'push')'')
            | frame # rest \<Rightarrow> parseWords L ((frame @ [stackElement]) # rest) ws)
         else parseWords L stackStack ws))"

definition parseStack ::
  "('c, 's, 'b, 'a) tonCore \<Rightarrow> string \<Rightarrow> jsError + ('c, 's, 'b, 'a) StackElement list option" where
  "parseStack L line = parseWords L [] (splitSpaces (padBrackets line))"

section \<open>Stack-effect notation parser (src/App.tsx)\<close>

text \<open>
  One match of \<^verbatim>\<open>/\w+\s+kw\s+\w+/\<close> at the start of \<open>s\<close>, for \<open>kw\<close> one of \<^verbatim>\<open>mod\<close> and
  \<^verbatim>\<open>xor\<close>; the result is what follows the match. The classes \<^verbatim>\<open>\w\<close> and \<^verbatim>\<open>\s\<close> are
  disjoint and the keyword starts with a word character, so each greedy run is the
  maximal one and backtracking finds nothing more.
\<close>

definition matchCompound :: "string \<Rightarrow> string \<Rightarrow> string option" where
  "matchCompound kw s =
     (let w1 = takeWhile isWordChar s; r1 = dropWhile isWordChar s;
          s1 = takeWhile isSpace r1; r2 = dropWhile isSpace r1;
          r3 = drop (length kw) r2;
          s2 = takeWhile isSpace r3; r4 = dropWhile isSpace r3;
          w2 = takeWhile isWordChar r4
      in if w1 \<noteq> [] \<and> s1 \<noteq> [] \<and> prefix kw r2 \<and> s2 \<noteq> [] \<and> w2 \<noteq> []
         then Some (dropWhile isWordChar r4) else None)"

lemma matchCompound_shorter:
  "matchCompound kw s = Some rest \<Longrightarrow> length rest < length s"
proof -
  assume m: "matchCompound kw s = Some rest"
  define r1 where "r1 = dropWhile isWordChar s"
  define r2 where "r2 = dropWhile isSpace r1"
  define r3 where "r3 = drop (length kw) r2"
  define r4 where "r4 = dropWhile isSpace r3"
  from m have w1: "takeWhile isWordChar s \<noteq> []" and rest: "rest = dropWhile isWordChar r4"
    by (auto simp: matchCompound_def Let_def r1_def r2_def r3_def r4_def split: if_splits)
  have "length rest \<le> length r4" by (simp add: rest length_dropWhile_le)
  also have "\<dots> \<le> length r3" by (simp add: r4_def length_dropWhile_le)
  also have "\<dots> \<le> length r2" by (simp add: r3_def)
  also have "\<dots> \<le> length r1" by (simp add: r2_def length_dropWhile_le)
  also have "\<dots> < length s"
  proof -
    have "length (takeWhile isWordChar s) + length r1 = length s"
      unfolding r1_def by (metis length_append takeWhile_dropWhile_id)
    with w1 show ?thesis by (cases "takeWhile isWordChar s") auto
  qed
  finally show ?thesis .
qed

text \<open>\<^verbatim>\<open>s.replace(/\w+\s+kw\s+\w+/g, 'X')\<close>: the matches from left to right, the search
  resuming after each one.\<close>

function replaceCompound :: "string \<Rightarrow> string \<Rightarrow> string" where
  "replaceCompound kw [] = []"
| "replaceCompound kw (c # cs) =
     (case matchCompound kw (c # cs) of
        Some rest \<Rightarrow> CHR ''X'' # replaceCompound kw rest
      | None \<Rightarrow> c # replaceCompound kw cs)"
  by pat_completeness auto
termination
  by (relation "measure (\<lambda>(kw, s). length s)") (auto dest: matchCompound_shorter)

definition countStackItems :: "string \<Rightarrow> nat" where
  "countStackItems stackPart =
     (if trim stackPart = [] then 0
      else let normalized = replaceCompound ''xor'' (replaceCompound ''mod'' stackPart);
               tokens = splitStr (trim normalized) '' ''
           in length tokens)"

text \<open>The result \<^verbatim>\<open>null\<close> is \<^const>\<open>None\<close>; \<^verbatim>\<open>[a, b]\<close> is \<open>Some (a, b)\<close>. Nothing in the
  body throws, so the \<^verbatim>\<open>catch\<close> is never entered.\<close>

definition parseOpcodeStackDiff :: "string \<Rightarrow> (nat \<times> nat) option" where
  "parseOpcodeStackDiff text =
     (if length text = 0 then None
      else if text = ''-'' then None
      else if includesStr text ''or'' \<and> \<not> includesStr text ''xor'' then None
      else if includesStr text ''...'' then None
      else if startsWith text ''- '' then Some (0, countStackItems (drop 2 text))
      else if endsWith text '' -'' then Some (countStackItems (take (length text - 2) text), 0)
      else (case splitStr text '' - '' of
              [before, after] \<Rightarrow> Some (countStackItems before, countStackItems after)
            | _ \<Rightarrow> None))"

section \<open>Instruction classifier (src/App.tsx)\<close>

text \<open>The fields of a catalog entry that the classifier reads. An absent
  \<^verbatim>\<open>alias_of\<close> is the empty string (both are falsy in the source's test).\<close>

record Opcode =
  name :: string
  alias_of :: string
  doc_fift :: string
  doc_description :: string
  doc_stack :: string

text \<open>
  \<^verbatim>\<open>parseInt(str)\<close> with no radix: leading whitespace and a sign are read, \<^verbatim>\<open>0x\<close> selects
  radix 16, and the longest prefix of digits is the value; \<^const>\<open>None\<close> is NaN. The
  source compares the result with 0, 1, 2 and 15 only, so the rounding of a Number
  beyond 2^53 changes no outcome and the value is kept exact.
\<close>

definition parseInt :: "string \<Rightarrow> int option" where
  "parseInt str =
     (let s = dropWhile isSpace str;
          neg = startsWith s ''-'';
          s1 = (if startsWith s ''-'' \<or> startsWith s ''+'' then drop 1 s else s);
          hex = (startsWith s1 ''0x'' \<or> startsWith s1 ''0X'');
          r = (if hex then 16 else 10);
          s2 = (if hex then drop 2 s1 else s1);
          ds = takeWhile (\<lambda>c. case digitValue c of None \<Rightarrow> False | Some d \<Rightarrow> d < r) s2
      in if ds = [] then None
         else map_option (\<lambda>n. if neg then - int n else int n) (digitsValue r 0 ds))"

text \<open>
  The \<^verbatim>\<open>XCHG\<close> block of \<^verbatim>\<open>findOpcodeInfo\<close>. \<open>Some r\<close> is \<^verbatim>\<open>return r\<close> (with \<open>r = None\<close>
  for \<^verbatim>\<open>null\<close>); \<^const>\<open>None\<close> is falling through to the code after the block.
\<close>

definition xchgTier :: "Opcode list \<Rightarrow> string \<Rightarrow> string list \<Rightarrow> Opcode option option" where
  "xchgTier opcodes commandName parts =
     (if commandName = ''XCHG'' then
        (let params = filter (\<lambda>p. startsWith p ''s'') (drop 1 parts) in
         if length params \<ge> 2 then
           (case (parseInt (drop 1 (params ! 0)), parseInt (drop 1 (params ! 1))) of
              (Some i, Some j) \<Rightarrow>
                if i = 0 then Some (find (\<lambda>op. name op = ''XCHG_0I'') opcodes)
                else if i = 1 then
                  (if j \<ge> 2 then Some (find (\<lambda>op. name op = ''XCHG_1I'') opcodes) else None)
                else
                  (if i \<ge> 1 \<and> j > i \<and> j \<le> 15 then Some (find (\<lambda>op. name op = ''XCHG_IJ'') opcodes) else None)
            | _ \<Rightarrow> None)
         else None)
      else None)"

text \<open>\<^verbatim>\<open>s.replace(/\[.*?\]/g, '*')\<close>: each \<^verbatim>\<open>[\<close> up to the next \<^verbatim>\<open>]\<close> becomes a star,
  unless a line terminator comes first.\<close>

definition bracketInner :: "char \<Rightarrow> bool" where
  "bracketInner d = (d \<noteq> CHR '']'' \<and> d \<noteq> CHR 0x0A \<and> d \<noteq> CHR 0x0D)"

function replaceBracketed :: "string \<Rightarrow> string" where
  "replaceBracketed [] = []"
| "replaceBracketed (c # cs) =
     (if c = CHR ''['' \<and> startsWith (dropWhile bracketInner cs) '']''
      then CHR ''*'' # replaceBracketed (drop 1 (dropWhile bracketInner cs))
      else c # replaceBracketed cs)"
  by pat_completeness auto
termination
  by (relation "measure length")
     (auto simp: less_Suc_eq_le intro: le_trans [OF diff_le_self length_dropWhile_le])

definition templateMatches :: "string \<Rightarrow> Opcode \<Rightarrow> bool" where
  "templateMatches commandName op =
     (includesStr (doc_fift op) ''['' \<and> includesStr (doc_fift op) '']'' \<and>
      (case splitSpaces (doc_fift op) of
         [] \<Rightarrow> False
       | fiftCommand # fiftParams \<Rightarrow>
           toUpperCase fiftCommand = commandName \<and>
           includesStr (replaceBracketed (join '' '' fiftParams)) ''*''))"

text \<open>The code of \<^verbatim>\<open>findOpcodeInfo\<close> after the \<^verbatim>\<open>XCHG\<close> block: the template loop, the
  description filter and the name or alias filter.\<close>

definition laterTiers :: "Opcode list \<Rightarrow> string \<Rightarrow> Opcode option" where
  "laterTiers opcodes commandName =
     (case find (templateMatches commandName) opcodes of
        Some op \<Rightarrow> Some op
      | None \<Rightarrow>
         (case filter (\<lambda>op. includesStr (toUpperCase (doc_description op)) commandName) opcodes of
            m # _ \<Rightarrow> Some m
          | [] \<Rightarrow>
             (case filter (\<lambda>op. includesStr (toUpperCase (name op)) commandName \<or>
                       (alias_of op \<noteq> [] \<and> includesStr (toUpperCase (alias_of op)) commandName))
                     opcodes of
                p # _ \<Rightarrow> Some p
              | [] \<Rightarrow> None)))"

text \<open>The command name and the parts of an instruction text.\<close>

definition commandParts :: "string \<Rightarrow> string list" where
  "commandParts opcodeStr =
     (let normalizedStr = trim opcodeStr;
          normalizedStr = (if startsWith normalizedStr ''implicit ''
                           then trim (drop 9 normalizedStr) else normalizedStr)
      in splitSpacesOrComma normalizedStr)"

definition findOpcodeInfo :: "Opcode list \<Rightarrow> string \<Rightarrow> Opcode option" where
  "findOpcodeInfo opcodes opcodeStr =
     (if opcodeStr = [] \<or> length opcodes = 0 then None
      else
        (let parts = commandParts opcodeStr;
             commandName = toUpperCase (case parts of [] \<Rightarrow> [] | p # _ \<Rightarrow> p)
         in case find (\<lambda>op. toUpperCase (name op) = commandName) opcodes of
              Some exactMatch \<Rightarrow> Some exactMatch
            | None \<Rightarrow>
               (case xchgTier opcodes commandName parts of
                  Some r \<Rightarrow> r
                | None \<Rightarrow> laterTiers opcodes commandName)))"

section \<open>Locator resolver and link serialisation\<close>

subsection \<open>Buffers and numbers as text\<close>

type_synonym byte = "8 word"

definition digitChar :: "nat \<Rightarrow> char" where
  "digitChar d = ''0123456789abcdef'' ! d"

text \<open>\<^verbatim>\<open>buf.toString('hex')\<close>: two lower-case digits per byte.\<close>

definition toHex :: "byte list \<Rightarrow> string" where
  "toHex bs = concat (map (\<lambda>b. [digitChar (unat b div 16), digitChar (unat b mod 16)]) bs)"

definition base64Char :: "nat \<Rightarrow> char" where
  "base64Char n = ''ABCDEFGHIJKLMNOPQRSTUVWXYZabcdefghijklmnopqrstuvwxyz0123456789+/'' ! n"

text \<open>\<^verbatim>\<open>buf.toString('base64')\<close> (RFC 4648 with padding), on the byte values.\<close>

fun base64Nat :: "nat list \<Rightarrow> string" where
  "base64Nat [] = []"
| "base64Nat [a] =
     [base64Char (a div 4), base64Char ((a mod 4) * 16), CHR ''='', CHR ''='']"
| "base64Nat [a, b] =
     [base64Char (a div 4), base64Char ((a mod 4) * 16 + b div 16),
      base64Char ((b mod 16) * 4), CHR ''='']"
| "base64Nat (a # b # c # rest) =
     [base64Char (a div 4), base64Char ((a mod 4) * 16 + b div 16),
      base64Char ((b mod 16) * 4 + c div 64), base64Char (c mod 64)] @ base64Nat rest"

definition toBase64 :: "byte list \<Rightarrow> string" where
  "toBase64 bs = base64Nat (map unat bs)"

text \<open>The decimal digits of a natural number, and \<^verbatim>\<open>String(n)\<close> for a \<^verbatim>\<open>bigint\<close>.\<close>

function natToDecimal :: "nat \<Rightarrow> string" where
  "natToDecimal n = (if n < 10 then [digitChar n] else natToDecimal (n div 10) @ [digitChar (n mod 10)])"
  by pat_completeness auto
termination
  by (relation "measure id") auto

declare natToDecimal.simps [simp del]

definition bigintToString :: "int \<Rightarrow> string" where
  "bigintToString i = (if i < 0 then CHR ''-'' # natToDecimal (nat (- i)) else natToDecimal (nat i))"

subsection \<open>Link serialisation: \<^verbatim>\<open>txToLinks\<close>\<close>

text \<open>\<^verbatim>\<open>BaseTxInfo\<close>; the address is a value of \<^verbatim>\<open>@ton/core\<close>, of a type left open.\<close>

record 'a BaseTxInfo =
  lt :: int
  hash :: "byte list"
  addr :: 'a

record TxLinks =
  toncx :: string
  tonviewer :: string
  tonscan :: string
  toncoin :: string
  dton :: string

definition networkPrefix :: "bool \<Rightarrow> string" where
  "networkPrefix testnet = (if testnet then ''testnet.'' else [])"

text \<open>\<open>addrToString\<close> is \<^verbatim>\<open>Address.toString()\<close> of \<^verbatim>\<open>@ton/core\<close>, a parameter.\<close>

definition txToLinks :: "('a \<Rightarrow> string) \<Rightarrow> 'a BaseTxInfo \<Rightarrow> bool \<Rightarrow> TxLinks" where
  "txToLinks addrToString opts testnet =
     \<lparr> toncx = ''https://'' @ networkPrefix testnet @ ''ton.cx/tx/''
                @ bigintToString (lt opts) @ '':'' @ toBase64 (hash opts) @ '':''
                @ addrToString (addr opts),
       tonviewer = ''https://'' @ networkPrefix testnet
                @ ''tonviewer.com/transaction/'' @ toHex (hash opts),
       tonscan = ''https://'' @ networkPrefix testnet @ ''tonscan.org/tx/''
                @ toBase64 (hash opts),
       toncoin = ''https://'' @ (if testnet then ''test-'' else [])
                @ ''explorer.toncoin.org/transaction?account='' @ addrToString (addr opts)
                @ ''&lt='' @ bigintToString (lt opts) @ ''&hash='' @ toHex (hash opts),
       dton = ''https://'' @ networkPrefix testnet @ ''dton.io/tx/''
                @ ''F64C6A3CDF3FAD1D786AACF9A6130F18F3F76EEB71294F53BBD812AD3703E70A'' \<rparr>"

subsection \<open>Resolution: \<^verbatim>\<open>linkToTx\<close>\<close>

text \<open>A transaction as the index returns it (\<^verbatim>\<open>account\<close>, \<^verbatim>\<open>lt\<close> and \<^verbatim>\<open>hash\<close> of
  \<^verbatim>\<open>TransactionIndexed\<close>, all strings).\<close>

record TransactionIndexed =
  account :: string
  tx_lt :: string
  tx_hash :: string

text \<open>
  What the resolver calls outside the repository, as parameters. A thrown \<^verbatim>\<open>Error\<close> is
  \<open>Inl\<close> of its message. \<open>addressParse None\<close> is \<^verbatim>\<open>Address.parse(undefined)\<close>. \<open>toncenter testnet h\<close> is the answer of the index of that
  network to \<^verbatim>\<open>{hash: h, limit: 1}\<close>: the transactions, or the failure of the request.
  One resolution never sends the same request twice, so an answer that depends on the
  request alone loses nothing.
\<close>

record 'a resolverEnv =
  bufferFromHex :: "string \<Rightarrow> byte list"
  bufferFromBase64 :: "string \<Rightarrow> byte list"
  addressParse :: "string option \<Rightarrow> string + 'a"
  addressParseRaw :: "string \<Rightarrow> string + 'a"
  urlSearchParams :: "string \<Rightarrow> string + (string \<Rightarrow> string option)"
  toncenter :: "bool \<Rightarrow> string \<Rightarrow> string + TransactionIndexed list"

text \<open>The calls the resolver awaits, in the order it makes them.\<close>

datatype event = WaitForRateLimit | FetchTransactions string bool

definition fetchTransactions ::
  "'a resolverEnv \<Rightarrow> string \<Rightarrow> bool \<Rightarrow> string + TransactionIndexed list" where
  "fetchTransactions E h testnet =
     (case toncenter E testnet h of
        Inl m \<Rightarrow> Inl (''Get transactions on Toncenter V3: '' @ m)
      | Inr txs \<Rightarrow> Inr txs)"

text \<open>The messages of the engine's own errors (V8 wording).\<close>

definition undefinedProperty :: "string \<Rightarrow> string" where
  "undefinedProperty field =
     ''Cannot read properties of undefined (reading '' @ [CHR 0x27] @ field @ [CHR 0x27] @ '')''"

definition bufferFromUndefined :: string where
  "bufferFromUndefined =
     ''The first argument must be of type string or an instance of Buffer, ArrayBuffer, ''
     @ ''or Array or an Array-like Object. Received undefined''"

definition bigIntOrThrow :: "string \<Rightarrow> string + int" where
  "bigIntOrThrow s =
     (case BigInt s of None \<Rightarrow> Inl (''Cannot convert '' @ s @ '' to a BigInt'') | Some n \<Rightarrow> Inr n)"

text \<open>
  The \<^verbatim>\<open>try { mainnet } catch { testnet }\<close> block that both fallback formats share, for the
  format named \<open>label\<close>: the outcome (the answer, or the message of what was thrown), the
  value of \<^verbatim>\<open>testnet\<close>, \<^verbatim>\<open>triedFormats\<close> and the calls made.
\<close>

definition mainnetThenTestnet ::
  "'a resolverEnv \<Rightarrow> string \<Rightarrow> string \<Rightarrow> string list
     \<Rightarrow> (string + TransactionIndexed list) \<times> bool \<times> string list \<times> event list" where
  "mainnetThenTestnet E label h triedFormats =
     (case fetchTransactions E h False of
        Inr (t # ts) \<Rightarrow> (Inr (t # ts), False, triedFormats, [FetchTransactions h False])
      | other \<Rightarrow>
         (let tried1 = (case other of Inr [] \<Rightarrow> triedFormats @ [label @ '' mainnet'']
                                    | _ \<Rightarrow> triedFormats);
              calls = [FetchTransactions h False, WaitForRateLimit, FetchTransactions h True]
          in case fetchTransactions E h True of
               Inr [] \<Rightarrow> (Inl ''nope'', True, tried1 @ [label @ '' testnet''], calls)
             | res \<Rightarrow> (res, True, tried1, calls)))"

text \<open>The outcome of one fallback format: a locator with its network, or the error that
  ends the attempt, with \<^verbatim>\<open>triedFormats\<close>; and the calls made.\<close>

type_synonym 'a attempt = "(string \<times> string list + 'a BaseTxInfo \<times> bool) \<times> event list"

text \<open>The first \<^verbatim>\<open>try\<close> of the fallback: \<^verbatim>\<open>lt:hash\<close>.\<close>

definition tryLtHash ::
  "'a resolverEnv \<Rightarrow> string \<Rightarrow> bool option \<Rightarrow> string list \<Rightarrow> 'a attempt" where
  "tryLtHash E txLink forcedTestnet triedFormats =
     (let parts = splitStr txLink '':'' in
      case bigIntOrThrow (case parts of [] \<Rightarrow> [] | ltStr # _ \<Rightarrow> ltStr) of
        Inl m \<Rightarrow> (Inl (m, triedFormats), [])
      | Inr ltv \<Rightarrow>
         (case drop 1 parts of
            [] \<Rightarrow> (Inl (bufferFromUndefined, triedFormats), [])
          | hashStr # _ \<Rightarrow>
             (if forcedTestnet = Some True then
                (case fetchTransactions E hashStr True of
                   Inl m \<Rightarrow> (Inl (m, triedFormats), [FetchTransactions hashStr True])
                 | Inr [] \<Rightarrow> (Inl (undefinedProperty ''account'', triedFormats),
                               [FetchTransactions hashStr True])
                 | Inr (t # _) \<Rightarrow>
                    (case addressParseRaw E (account t) of
                       Inl m \<Rightarrow> (Inl (m, triedFormats), [FetchTransactions hashStr True])
                     | Inr a \<Rightarrow>
                        (Inr (\<lparr>lt = ltv, hash = bufferFromHex E hashStr, addr = a\<rparr>, True),
                         [FetchTransactions hashStr True])))
              else
                (case mainnetThenTestnet E ''lt:hash'' hashStr triedFormats of
                   (Inl m, testnet, tried, calls) \<Rightarrow> (Inl (m, tried), calls)
                 | (Inr [], testnet, tried, calls) \<Rightarrow>
                     (Inl (undefinedProperty ''account'', tried), calls)
                 | (Inr (t # _), testnet, tried, calls) \<Rightarrow>
                    (case addressParseRaw E (account t) of
                       Inl m \<Rightarrow> (Inl (m, tried), calls)
                     | Inr a \<Rightarrow>
                        (Inr (\<lparr>lt = ltv, hash = bufferFromHex E hashStr, addr = a\<rparr>, testnet),
                         calls))))))"

text \<open>The assignments after a successful lookup of a bare hash.\<close>

definition fromIndexed ::
  "'a resolverEnv \<Rightarrow> TransactionIndexed list \<Rightarrow> bool \<Rightarrow> string + 'a BaseTxInfo \<times> bool" where
  "fromIndexed E txs testnet =
     (case txs of
        [] \<Rightarrow> Inl (undefinedProperty ''hash'')
      | t # _ \<Rightarrow>
         (case bigIntOrThrow (tx_lt t) of
            Inl m \<Rightarrow> Inl m
          | Inr ltv \<Rightarrow>
             (case addressParseRaw E (account t) of
                Inl m \<Rightarrow> Inl m
              | Inr a \<Rightarrow>
                 Inr (\<lparr>lt = ltv, hash = bufferFromBase64 E (tx_hash t), addr = a\<rparr>, testnet))))"

text \<open>The second \<^verbatim>\<open>try\<close> of the fallback: a bare hash.\<close>

definition tryBareHash ::
  "'a resolverEnv \<Rightarrow> string \<Rightarrow> bool option \<Rightarrow> string list \<Rightarrow> 'a attempt" where
  "tryBareHash E txLink0 forcedTestnet triedFormats =
     (let txLink = (if endsWith txLink0 ''='' then toHex (bufferFromBase64 E txLink0) else txLink0) in
      if length txLink \<noteq> 64 then
        (Inl (''Seems like hash, but not of length 64. Probably missing letters'', triedFormats), [])
      else if forcedTestnet = Some True then
        (case fetchTransactions E txLink True of
           Inl m \<Rightarrow> (Inl (m, triedFormats), [WaitForRateLimit, FetchTransactions txLink True])
         | Inr txs \<Rightarrow>
            (case fromIndexed E txs True of
               Inl m \<Rightarrow> (Inl (m, triedFormats), [WaitForRateLimit, FetchTransactions txLink True])
             | Inr r \<Rightarrow> (Inr r, [WaitForRateLimit, FetchTransactions txLink True])))
      else
        (case mainnetThenTestnet E ''bare hash'' txLink triedFormats of
           (Inl m, testnet, tried, calls) \<Rightarrow> (Inl (m, tried), WaitForRateLimit # calls)
         | (Inr txs, testnet, tried, calls) \<Rightarrow>
            (case fromIndexed E txs testnet of
               Inl m \<Rightarrow> (Inl (m, tried), WaitForRateLimit # calls)
             | Inr r \<Rightarrow> (Inr r, WaitForRateLimit # calls))))"

text \<open>The \<^verbatim>\<open>else\<close> branch of \<^verbatim>\<open>linkToTx\<close>: \<^verbatim>\<open>lt:hash\<close>, then the bare hash with
  \<^verbatim>\<open>triedFormats\<close> as the first attempt left it, then the final error.\<close>

definition knownFormats :: "string list" where
  "knownFormats = [''ton.cx'', ''tonviewer'', ''tonscan'', ''toncoin.org'', ''dton'']"

definition unrecognizedLink :: "string list \<Rightarrow> string \<Rightarrow> string" where
  "unrecognizedLink triedFormats m =
     (let maybeMsg = (if m \<noteq> ''nope'' then ''Got strange error: '' @ m else []);
          formatsStr = join '', '' triedFormats
      in ''Coudn'' @ [CHR 0x27] @ ''t recognize such link, tried all formats: '' @ formatsStr
           @ ''. '' @ maybeMsg)"

definition fallbackFormats :: "'a resolverEnv \<Rightarrow> string \<Rightarrow> bool option
     \<Rightarrow> (string + 'a BaseTxInfo \<times> bool) \<times> event list" where
  "fallbackFormats E txLink forcedTestnet =
     (case tryLtHash E txLink forcedTestnet knownFormats of
        (Inr r, calls) \<Rightarrow> (Inr r, calls)
      | (Inl (m0, tried0), calls0) \<Rightarrow>
         (case tryBareHash E txLink forcedTestnet tried0 of
            (Inr r, calls) \<Rightarrow> (Inr r, calls0 @ calls)
          | (Inl (m, tried), calls) \<Rightarrow> (Inl (unrecognizedLink tried m), calls0 @ calls)))"

text \<open>The explorer shapes that carry a bare hash: one lookup on the network of the link.\<close>

definition hashOnlyLink :: "'a resolverEnv \<Rightarrow> string \<Rightarrow> bool \<Rightarrow> byte list
     \<Rightarrow> (string + 'a BaseTxInfo \<times> bool) \<times> event list" where
  "hashOnlyLink E infoPart testnet hashBytes =
     (case fetchTransactions E infoPart testnet of
        Inl m \<Rightarrow> (Inl m, [FetchTransactions infoPart testnet])
      | Inr [] \<Rightarrow> (Inl (undefinedProperty ''account''), [FetchTransactions infoPart testnet])
      | Inr (t # _) \<Rightarrow>
         (case addressParseRaw E (account t) of
            Inl m \<Rightarrow> (Inl m, [FetchTransactions infoPart testnet])
          | Inr a \<Rightarrow>
             (case bigIntOrThrow (tx_lt t) of
                Inl m \<Rightarrow> (Inl m, [FetchTransactions infoPart testnet])
              | Inr ltv \<Rightarrow> (Inr (\<lparr>lt = ltv, hash = hashBytes, addr = a\<rparr>, testnet),
                            [FetchTransactions infoPart testnet]))))"

text \<open>\<^verbatim>\<open>v || d\<close> for the result of \<^verbatim>\<open>searchParams.get\<close>.\<close>

definition orElse :: "string option \<Rightarrow> string \<Rightarrow> string" where
  "orElse v d = (case v of None \<Rightarrow> d | Some s \<Rightarrow> if s = [] then d else s)"

text \<open>The \<^verbatim>\<open>ton.cx\<close> shape: the triple is in the link.\<close>

definition inlineTriple :: "'a resolverEnv \<Rightarrow> string \<Rightarrow> bool
     \<Rightarrow> (string + 'a BaseTxInfo \<times> bool) \<times> event list" where
  "inlineTriple E infoPart testnet =
     (let parts = splitStr infoPart '':'' in
      case bigIntOrThrow (case parts of [] \<Rightarrow> [] | ltStr # _ \<Rightarrow> ltStr) of
        Inl m \<Rightarrow> (Inl m, [])
      | Inr ltv \<Rightarrow>
         (case drop 1 parts of
            [] \<Rightarrow> (Inl bufferFromUndefined, [])
          | hashStr # others \<Rightarrow>
             (case addressParse E (case others of [] \<Rightarrow> None | addrStr # _ \<Rightarrow> Some addrStr) of
                Inl m \<Rightarrow> (Inl m, [])
              | Inr a \<Rightarrow>
                 (Inr (\<lparr>lt = ltv, hash = bufferFromBase64 E hashStr, addr = a\<rparr>, testnet),
                  []))))"

text \<open>The \<^verbatim>\<open>explorer.toncoin.org\<close> shape: the triple is in the query parameters.\<close>

definition queryTriple :: "'a resolverEnv \<Rightarrow> string \<Rightarrow> bool
     \<Rightarrow> (string + 'a BaseTxInfo \<times> bool) \<times> event list" where
  "queryTriple E txLink testnet =
     (case urlSearchParams E txLink of
        Inl m \<Rightarrow> (Inl m, [])
      | Inr params \<Rightarrow>
         (case bigIntOrThrow (orElse (params ''lt'') ''0'') of
            Inl m \<Rightarrow> (Inl m, [])
          | Inr ltv \<Rightarrow>
             (case addressParse E (Some (orElse (params ''account'') [])) of
                Inl m \<Rightarrow> (Inl m, [])
              | Inr a \<Rightarrow>
                 (Inr (\<lparr>lt = ltv, hash = bufferFromHex E (orElse (params ''hash'') []), addr = a\<rparr>,
                       testnet), []))))"

text \<open>
  \<^verbatim>\<open>linkToTx\<close>: the resolved promise is \<open>Inr (tx, testnet)\<close>, the rejected one \<open>Inl\<close> of the
  error's message; with them the calls awaited. \<open>forcedTestnet\<close> is \<^const>\<open>None\<close> when the
  argument is left out.
\<close>

definition linkToTx :: "'a resolverEnv \<Rightarrow> string \<Rightarrow> bool option
     \<Rightarrow> (string + 'a BaseTxInfo \<times> bool) \<times> event list" where
  "linkToTx E txLink forcedTestnet =
     (if startsWith txLink ''https://ton.cx/tx/''
         \<or> startsWith txLink ''https://testnet.ton.cx/tx/'' then
        (let testnet = (forcedTestnet = Some True \<or> includesStr txLink ''testnet.'');
             infoPart = (if testnet then drop 26 txLink else drop 18 txLink)
         in inlineTriple E infoPart testnet)
      else if startsWith txLink ''https://tonviewer.com/''
         \<or> startsWith txLink ''https://testnet.tonviewer.com/'' then
        (let testnet = (forcedTestnet = Some True \<or> includesStr txLink ''testnet.'');
             infoPart = (if testnet then drop 42 txLink else drop 34 txLink)
         in hashOnlyLink E infoPart testnet (bufferFromHex E infoPart))
      else if startsWith txLink ''https://tonscan.org/tx/''
         \<or> startsWith txLink ''https://testnet.tonscan.org/tx/'' then
        (let testnet = (forcedTestnet = Some True \<or> includesStr txLink ''testnet.'');
             infoPart = (if testnet then drop 31 txLink else drop 23 txLink)
         in hashOnlyLink E infoPart testnet (bufferFromBase64 E infoPart))
      else if startsWith txLink ''https://explorer.toncoin.org/transaction''
         \<or> startsWith txLink ''https://test-explorer.toncoin.org/transaction'' then
        (let testnet = (forcedTestnet = Some True \<or> includesStr txLink ''test-'')
         in queryTriple E txLink testnet)
      else if startsWith txLink ''https://dton.io/tx''
         \<or> startsWith txLink ''https://testnet.dton.io/tx'' then
        (let testnet = (forcedTestnet = Some True \<or> includesStr txLink ''testnet.'');
             infoPart = (if testnet then drop 27 txLink else drop 19 txLink)
         in hashOnlyLink E infoPart testnet (bufferFromHex E infoPart))
      else fallbackFormats E txLink forcedTestnet)"

section \<open>Notions used to state the properties\<close>

subsection \<open>Bracket structure of a stack line\<close>

text \<open>
  The words of a line, seen as a forest: a scalar word, a word the decoder skips, or a
  group between \<^verbatim>\<open>[\<close> and its \<^verbatim>\<open>]\<close>. \<open>tokensOf\<close> gives the words back; \<open>valuesOf\<close> is
  the value a tree stands for: the value of a scalar word unless that is \<^verbatim>\<open>undefined\<close>,
  none for a skipped word, one tuple per group.
\<close>

datatype tokenTree = Scalar string | Skipped string | Bracketed "tokenTree list"

fun tokensOf :: "tokenTree \<Rightarrow> string list" where
  "tokensOf (Scalar w) = [w]"
| "tokensOf (Skipped w) = [w]"
| "tokensOf (Bracketed ts) = ''['' # concat (map tokensOf ts) @ ['']'']"

definition isSkipped :: "string \<Rightarrow> bool" where
  "isSkipped w = (trim w \<in> set [''stack:'', ''''])"

text \<open>A word the loop passes over without touching the frames: a skipped word, or a
  scalar word that decodes to \<^verbatim>\<open>undefined\<close>.\<close>

definition passedOver :: "('c, 's, 'b, 'a) tonCore \<Rightarrow> string \<Rightarrow> bool" where
  "passedOver L w =
     (isSkipped w \<or> (trim w \<noteq> ''['' \<and> trim w \<noteq> '']'' \<and> parseStackElement L (trim w) = Undefined))"

fun wellFormed :: "tokenTree \<Rightarrow> bool" where
  "wellFormed (Scalar w) = (trim w \<notin> set [''stack:'', '''', ''['', '']''])"
| "wellFormed (Skipped w) = isSkipped w"
| "wellFormed (Bracketed ts) = list_all wellFormed ts"

fun valuesOf ::
  "('c, 's, 'b, 'a) tonCore \<Rightarrow> tokenTree \<Rightarrow> ('c, 's, 'b, 'a) StackElement list" where
  "valuesOf L (Scalar w) =
     (if parseStackElement L (trim w) = Undefined then [] else [parseStackElement L (trim w)])"
| "valuesOf L (Skipped w) = []"
| "valuesOf L (Bracketed ts) = [Tuple (concat (map (valuesOf L) ts))]"

text \<open>The words of groups that are opened one inside the other and never closed.\<close>

fun openFrames :: "tokenTree list list \<Rightarrow> string list" where
  "openFrames [] = []"
| "openFrames (ts # opened) = ''['' # concat (map tokensOf ts) @ openFrames opened"

text \<open>A \<^verbatim>\<open>@ton/core\<close> that rejects every payload, for the examples; and one that
  decodes the header of a bag of cells with no cell and no root, and rejects the rest.\<close>

definition rejectingCore :: "(unit, unit, unit, unit) tonCore" where
  "rejectingCore = \<lparr>fromBocHex = (\<lambda>_. BocThrows), asSlice = (\<lambda>_. None), remainingBits = (\<lambda>_. 0),
     remainingRefs = (\<lambda>_. 0), loadAddress = (\<lambda>_. None), asBuilder = (\<lambda>_. None)\<rparr>"

definition rootlessCore :: "(unit, unit, unit, unit) tonCore" where
  "rootlessCore = rejectingCore\<lparr>fromBocHex :=
     (\<lambda>h. if h = ''B5EE9C72010100000000'' then BocNoRoot else BocThrows)\<rparr>"

subsection \<open>A small catalog\<close>

text \<open>Five entries in the shape of the TVM instruction catalog, for the examples.\<close>

definition sampleCatalog :: "Opcode list" where
  "sampleCatalog =
     [\<lparr>name = ''NOP'', alias_of = [], doc_fift = ''NOP'',
        doc_description = ''Does nothing.'', doc_stack = ''-''\<rparr>,
      \<lparr>name = ''XCHG_0I'', alias_of = [], doc_fift = ''s[i] XCHG0'',
        doc_description = ''Interchanges s0 with s[i].'', doc_stack = []\<rparr>,
      \<lparr>name = ''XCHG_IJ'', alias_of = [], doc_fift = ''s[i] s[j] XCHG'',
        doc_description = ''Interchanges s[i] with s[j].'', doc_stack = []\<rparr>,
      \<lparr>name = ''XCHG_1I'', alias_of = [], doc_fift = ''s1 s[i] XCHG'',
        doc_description = ''Interchanges s1 with s[i].'', doc_stack = []\<rparr>,
      \<lparr>name = ''XCHG2'', alias_of = [], doc_fift = ''s[i] s[j] XCHG2'',
        doc_description = ''Equivalent to s1 s[i] XCHG s[j] XCHG0.'', doc_stack = []\<rparr>]"

subsection \<open>Lookups of a hash\<close>

text \<open>
  The calls of one lookup of the hash \<open>h\<close> with no network forced: the mainnet index,
  and, unless it answered with at least one transaction, the rate limiter and then the
  testnet index.
\<close>

definition lookupCalls :: "'a resolverEnv \<Rightarrow> string \<Rightarrow> event list" where
  "lookupCalls E h =
     (case toncenter E False h of
        Inr (t # ts) \<Rightarrow> [FetchTransactions h False]
      | _ \<Rightarrow> [FetchTransactions h False, WaitForRateLimit, FetchTransactions h True])"

text \<open>Mainnet before testnet: every request to the testnet index comes directly after a
  request for the same hash to the mainnet index and a wait for the rate limiter.\<close>

fun testnetAfterMainnet :: "event list \<Rightarrow> bool" where
  "testnetAfterMainnet [] = True"
| "testnetAfterMainnet (FetchTransactions h False # WaitForRateLimit # FetchTransactions k True # rest) =
     (h = k \<and> testnetAfterMainnet rest)"
| "testnetAfterMainnet (FetchTransactions h True # rest) = False"
| "testnetAfterMainnet (e # rest) = testnetAfterMainnet rest"

text \<open>The explorer shapes: a reference that starts with none of these prefixes is read
  as an \<^verbatim>\<open>lt:hash\<close> pair or as a bare hash.\<close>

definition explorerPrefixes :: "string list" where
  "explorerPrefixes =
     [''https://ton.cx/tx/'', ''https://testnet.ton.cx/tx/'',
      ''https://tonviewer.com/'', ''https://testnet.tonviewer.com/'',
      ''https://tonscan.org/tx/'', ''https://testnet.tonscan.org/tx/'',
      ''https://explorer.toncoin.org/transaction'', ''https://test-explorer.toncoin.org/transaction'',
      ''https://dton.io/tx'', ''https://testnet.dton.io/tx'']"

definition isExplorerLink :: "string \<Rightarrow> bool" where
  "isExplorerLink txLink = list_ex (startsWith txLink) explorerPrefixes"

text \<open>
  The explorer shapes that carry a hash only (\<^verbatim>\<open>tonviewer\<close>, \<^verbatim>\<open>tonscan\<close>, \<^verbatim>\<open>dton\<close>), for a
  link resolved with no network forced: the payload after the prefix, and the network
  that the marker \<^verbatim>\<open>testnet.\<close> in the link selects. \<^const>\<open>None\<close> for every other
  reference.
\<close>

definition hashOnlyPayload :: "string \<Rightarrow> (string \<times> bool) option" where
  "hashOnlyPayload txLink =
     (let testnet = includesStr txLink ''testnet.'' in
      if startsWith txLink ''https://ton.cx/tx/''
         \<or> startsWith txLink ''https://testnet.ton.cx/tx/'' then None
      else if startsWith txLink ''https://tonviewer.com/''
         \<or> startsWith txLink ''https://testnet.tonviewer.com/'' then
        Some (drop (if testnet then 42 else 34) txLink, testnet)
      else if startsWith txLink ''https://tonscan.org/tx/''
         \<or> startsWith txLink ''https://testnet.tonscan.org/tx/'' then
        Some (drop (if testnet then 31 else 23) txLink, testnet)
      else if startsWith txLink ''https://explorer.toncoin.org/transaction''
         \<or> startsWith txLink ''https://test-explorer.toncoin.org/transaction'' then None
      else if startsWith txLink ''https://dton.io/tx''
         \<or> startsWith txLink ''https://testnet.dton.io/tx'' then
        Some (drop (if testnet then 27 else 19) txLink, testnet)
      else None)"

subsection \<open>Indexes for the examples\<close>

text \<open>
  The library calls of the examples. An address is kept as its text. A raw address is
  accepted as \<^verbatim>\<open>Address.parseRaw\<close> accepts it: the part after the first colon must
  decode, as pairs of hexadecimal digits up to the first pair that is not one, to
  exactly 32 bytes. The buffers are not looked at by any example and are empty.
\<close>

fun hexPairs :: "string \<Rightarrow> nat" where
  "hexPairs (a # b # cs) =
     (if digitValue a \<noteq> None \<and> digitValue b \<noteq> None then Suc (hexPairs cs) else 0)"
| "hexPairs cs = 0"

definition parseRawText :: "string \<Rightarrow> string + string" where
  "parseRawText source =
     (case drop 1 (splitStr source '':'') of
        [] \<Rightarrow> Inl bufferFromUndefined
      | h # _ \<Rightarrow>
         if hexPairs h = 32 then Inr source
         else Inl (''Invalid address hash length: '' @ natToDecimal (hexPairs h)))"

text \<open>An index that finds nothing on either network; one whose mainnet request fails and
  whose testnet knows the transaction; one whose mainnet knows it. The transaction is
  the one of the examples in the comments of \<^verbatim>\<open>linkToTx\<close>.\<close>

definition emptyIndex :: "string resolverEnv" where
  "emptyIndex =
     \<lparr>bufferFromHex = (\<lambda>_. []), bufferFromBase64 = (\<lambda>_. []),
      addressParse = (\<lambda>s. case s of None \<Rightarrow> Inl ''Invalid address'' | Some a \<Rightarrow> Inr a),
      addressParseRaw = parseRawText, urlSearchParams = (\<lambda>_. Inr (\<lambda>_. None)),
      toncenter = (\<lambda>_ _. Inr [])\<rparr>"

definition indexedExample :: TransactionIndexed where
  "indexedExample =
     \<lparr>account = ''0:dae153a74d894bbc32748198cd626e4f5df4a69ad2fa56ce80fc2644b5708d20'',
      tx_lt = ''47670702000009'',
      tx_hash = ''Pl9JeY3iOdpdj4C03DACBNN2E+QgOj97h3wEqIyBhWs=''\<rparr>"

definition mainnetDown :: "string resolverEnv" where
  "mainnetDown =
     emptyIndex\<lparr>toncenter := (\<lambda>testnet h.
        if testnet then Inr [indexedExample] else Inl ''Network Error'')\<rparr>"

definition mainnetOnly :: "string resolverEnv" where
  "mainnetOnly =
     emptyIndex\<lparr>toncenter := (\<lambda>testnet h.
        if testnet then Inr [] else Inr [indexedExample])\<rparr>"

subsection \<open>Locators for the examples\<close>

text \<open>The transaction of the examples in the comments of \<^verbatim>\<open>linkToTx\<close> (with its address
  already as text), and the same with the hash of the \<^verbatim>\<open>dton.io\<close> example.\<close>

definition exampleTx :: "string BaseTxInfo" where
  "exampleTx =
     \<lparr>lt = 47670702000009,
      hash = [0x3e, 0x5f, 0x49, 0x79, 0x8d, 0xe2, 0x39, 0xda, 0x5d, 0x8f, 0x80, 0xb4, 0xdc, 0x30, 0x02, 0x04, 0xd3, 0x76, 0x13, 0xe4, 0x20, 0x3a, 0x3f, 0x7b, 0x87, 0x7c, 0x04, 0xa8, 0x8c, 0x81, 0x85, 0x6b],
      addr = ''EQDa4VOnTYlLvDJ0gZjNYm5PXfSmmtL6Vs6A_CZEtXCNICq_''\<rparr>"

definition otherTx :: "string BaseTxInfo" where
  "otherTx = exampleTx\<lparr>hash := [0xF6, 0x4C, 0x6A, 0x3C, 0xDF, 0x3F, 0xAD, 0x1D, 0x78, 0x6A, 0xAC, 0xF9, 0xA6, 0x13, 0x0F, 0x18, 0xF3, 0xF7, 0x6E, 0xEB, 0x71, 0x29, 0x4F, 0x53, 0xBB, 0xD8, 0x12, 0xAD, 0x37, 0x03, 0xE7, 0x0A]\<rparr>"

section \<open>Properties of the stack notation decoder\<close>

subsection \<open>The steps of the word loop\<close>

lemma trim_brackets: "trim ''['' = ''[''" "trim '']'' = '']''"
  by (simp_all add: trim_def isSpace_def)

lemma parseWords_skip: "isSkipped w \<Longrightarrow> parseWords L ss (w # ws) = parseWords L ss ws"
  by (simp add: isSkipped_def Let_def)

lemma parseWords_scalar:
  "wellFormed (Scalar w) \<Longrightarrow>
   parseWords L (f # fs) (w # ws) = parseWords L ((f @ valuesOf L (Scalar w)) # fs) ws"
  by (simp add: Let_def)


lemma parseWords_passedOver: "passedOver L w \<Longrightarrow> parseWords L ss (w # ws) = parseWords L ss ws"
  by (auto simp: passedOver_def isSkipped_def Let_def)

lemma parseWords_open: "parseWords L ss (''['' # ws) = parseWords L ([] # ss) ws"
  by (simp add: trim_brackets Let_def)

lemma parseWords_close_nested:
  "parseWords L (tuple # outer # fs) ('']'' # ws) = parseWords L ((outer @ [Tuple tuple]) # fs) ws"
  by (simp add: trim_brackets Let_def)


lemma parseWords_close_empty:
  "parseWords L [] ('']'' # ws) = Inl (Error ''Something unexpected. Tuple ended without start.'')"
  by (simp add: trim_brackets Let_def)

declare parseWords.simps(2) [simp del]

lemma parseWords_skipped:
  "list_all (passedOver L) sk \<Longrightarrow> parseWords L ss (sk @ ws) = parseWords L ss ws"
  by (induction sk) (simp_all add: parseWords_passedOver)

lemma parseWords_tree:
  "wellFormed t \<Longrightarrow>
   parseWords L (f # fs) (tokensOf t @ rest) = parseWords L ((f @ valuesOf L t) # fs) rest"
proof (induction t arbitrary: f fs rest)
  case (Scalar w)
  then show ?case using parseWords_scalar [of w L f fs rest] by simp
next
  case (Skipped w)
  then show ?case by (simp add: parseWords_skip)
next
  case (Bracketed ts)
  have inner: "parseWords L (g # gs) (concat (map tokensOf ts) @ r)
      = parseWords L ((g @ concat (map (valuesOf L) ts)) # gs) r" for g gs r
    using Bracketed
  proof (induction ts arbitrary: g)
    case Nil
    then show ?case by simp
  next
    case (Cons t ts)
    have "parseWords L (g # gs) (tokensOf t @ concat (map tokensOf ts) @ r)
        = parseWords L ((g @ valuesOf L t) # gs) (concat (map tokensOf ts) @ r)"
      using Cons.prems by simp
    also have "\<dots> = parseWords L (((g @ valuesOf L t) @ concat (map (valuesOf L) ts)) # gs) r"
      using Cons.prems by (intro Cons.IH) simp_all
    finally show ?case by simp
  qed
  have "parseWords L (f # fs) (tokensOf (Bracketed ts) @ rest)
      = parseWords L ([] # f # fs) (concat (map tokensOf ts) @ '']'' # rest)"
    by (simp add: parseWords_open)
  also have "\<dots> = parseWords L (concat (map (valuesOf L) ts) # f # fs) ('']'' # rest)"
    using inner [of "[]" "f # fs" "'']'' # rest"] by simp
  also have "\<dots> = parseWords L ((f @ [Tuple (concat (map (valuesOf L) ts))]) # fs) rest"
    by (rule parseWords_close_nested)
  finally show ?case by simp
qed

lemma parseWords_trees:
  "list_all wellFormed ts \<Longrightarrow>
   parseWords L (f # fs) (concat (map tokensOf ts) @ rest)
     = parseWords L ((f @ concat (map (valuesOf L) ts)) # fs) rest"
proof (induction ts arbitrary: f)
  case Nil
  then show ?case by simp
next
  case (Cons t ts)
  then show ?case by (simp add: parseWords_tree)
qed


lemma parseWords_openFrames:
  "ss \<noteq> [] \<Longrightarrow> list_all (list_all wellFormed) opened \<Longrightarrow>
   parseWords L ss (openFrames opened) = Inr (Some (last ss))"
proof (induction opened arbitrary: ss)
  case Nil
  then show ?case by simp
next
  case (Cons ts opened)
  have "parseWords L ss (openFrames (ts # opened))
      = parseWords L ([] # ss) (concat (map tokensOf ts) @ openFrames opened)"
    by (simp add: parseWords_open)
  also have "\<dots> = parseWords L (concat (map (valuesOf L) ts) # ss) (openFrames opened)"
    using Cons.prems parseWords_trees [of ts L "[]" ss "openFrames opened"] by simp
  also have "\<dots> = Inr (Some (last (concat (map (valuesOf L) ts) # ss)))"
    using Cons.prems by (intro Cons.IH) simp_all
  finally show ?case using Cons.prems by simp
qed








lemmas decode_simps = parseStackElement.simps startsWith_def endsWith_def sliceButLast_def BigInt_def
  trim_def isSpace_def nonEmptyDigits_def digitValue_def



text \<open>
  Claim C5, as the code has it. A \<^verbatim>\<open>]\<close> met while no frame is open raises the
  structural error. A line whose \<^verbatim>\<open>[\<close> is never closed does not raise: when the
  words run out the decoder returns the content of the outermost frame as far as it got
  (the frames opened inside it and still open are dropped; as everywhere, a word decoded
  to \<^verbatim>\<open>undefined\<close> adds nothing to the content).
\<close>

theorem parseStack_unbalanced:
  assumes "splitSpaces (padBrackets line) = skipped @ ws"
    and "list_all (passedOver L) skipped"
  shows "(\<forall>rest. ws = '']'' # rest \<longrightarrow>
            parseStack L line = Inl (Error ''Something unexpected. Tuple ended without start.''))
       \<and> (\<forall>ts opened. ws = ''['' # concat (map tokensOf ts) @ openFrames opened
              \<and> list_all wellFormed ts \<and> list_all (list_all wellFormed) opened \<longrightarrow>
            parseStack L line = Inr (Some (concat (map (valuesOf L) ts))))"
proof (intro conjI allI impI)
  fix rest
  assume "ws = '']'' # rest"
  then show "parseStack L line = Inl (Error ''Something unexpected. Tuple ended without start.'')"
    using assms by (simp only: parseStack_def parseWords_skipped parseWords_close_empty)
next
  fix ts opened
  assume a: "ws = ''['' # concat (map tokensOf ts) @ openFrames opened
      \<and> list_all wellFormed ts \<and> list_all (list_all wellFormed) opened"
  have "parseWords L [] ws = parseWords L [[]] (concat (map tokensOf ts) @ openFrames opened)"
    using a by (simp only: parseWords_open)
  also have "\<dots> = parseWords L [concat (map (valuesOf L) ts)] (openFrames opened)"
    using a parseWords_trees [of ts L "[]" "[]" "openFrames opened"] by simp
  also have "\<dots> = Inr (Some (concat (map (valuesOf L) ts)))"
    using a parseWords_openFrames [of "[concat (map (valuesOf L) ts)]" opened L] by simp
  finally show "parseStack L line = Inr (Some (concat (map (valuesOf L) ts)))"
    using assms by (simp only: parseStack_def parseWords_skipped)
qed

text \<open>The theorem at three concrete lines, the last with a cell token whose bag of cells
  has no root.\<close>

theorem parseStack_unbalanced_witness:
  "parseStack rejectingCore '' ] 1'' = Inl (Error ''Something unexpected. Tuple ended without start.'')
   \<and> parseStack rejectingCore ''[ 1 [ 2'' = Inr (Some [Integer 1])
   \<and> parseStack rootlessCore ''[ 1 C{B5EE9C72010100000000} 2'' = Inr (Some [Integer 1, Integer 2])"
proof -
  let ?us = "[Scalar ''1'', Scalar ''C{B5EE9C72010100000000}'', Scalar ''2'']"
  have split1: "splitSpaces (padBrackets '' ] 1'') = [[]] @ ('']'' # [''1''])"
    by (simp add: padBrackets_def isSpace_def)
  have sk1: "list_all (passedOver L) [[]]" for L :: "(unit, unit, unit, unit) tonCore"
    by (simp add: passedOver_def isSkipped_def trim_def)
  have split2: "splitSpaces (padBrackets ''[ 1 [ 2'')
      = [[]] @ (''['' # concat (map tokensOf [Scalar ''1'']) @ openFrames [[Scalar ''2'']])"
    by (simp add: padBrackets_def isSpace_def)
  have wf: "list_all wellFormed [Scalar ''1''] \<and> list_all (list_all wellFormed) [[Scalar ''2'']]"
    by (simp add: isSkipped_def trim_def isSpace_def)
  have vals: "concat (map (valuesOf rejectingCore) [Scalar ''1'']) = [Integer 1]"
    by (simp add: decode_simps)
  have split3: "splitSpaces (padBrackets ''[ 1 C{B5EE9C72010100000000} 2'')
      = [[]] @ (''['' # concat (map tokensOf ?us) @ openFrames [])"
    by (simp add: padBrackets_def isSpace_def)
  have wf3: "list_all wellFormed ?us \<and> list_all (list_all wellFormed) []"
    by (simp add: trim_def isSpace_def)
  have vals3: "concat (map (valuesOf rootlessCore) ?us) = [Integer 1, Integer 2]"
    by (simp add: decode_simps rootlessCore_def rejectingCore_def)
  from parseStack_unbalanced [OF split1 sk1 [of rejectingCore]]
  have a: "parseStack rejectingCore '' ] 1'' = Inl (Error ''Something unexpected. Tuple ended without start.'')"
    by simp
  from parseStack_unbalanced [OF split2 sk1 [of rejectingCore]] wf vals
  have b: "parseStack rejectingCore ''[ 1 [ 2'' = Inr (Some [Integer 1])"
    by metis
  from parseStack_unbalanced [OF split3 sk1 [of rootlessCore]] wf3 vals3
  have c: "parseStack rootlessCore ''[ 1 C{B5EE9C72010100000000} 2'' = Inr (Some [Integer 1, Integer 2])"
    by metis
  from a b c show ?thesis by simp
qed

text \<open>Claim C5 as stated fails: the line \<^verbatim>\<open>[ 1 2\<close> has no closing bracket and
  decoding it returns a value.\<close>

theorem parseStack_unclosed_counterexample:
  "parseStack rejectingCore ''[ 1 2'' = Inr (Some [Integer 1, Integer 2])"
  by (simp add: parseStack_def padBrackets_def parseWords.simps Let_def decode_simps)

text \<open>
  Claim C6, as the code has it: \<^verbatim>\<open>()\<close> decodes to null, \<^verbatim>\<open>(5)\<close> to a one-element
  tuple of the integer 5, and the line \<^verbatim>\<open>[ 1 2 [ 3 ] ]\<close> to the sequence of three values
  1, 2 and the tuple of 3: the outer brackets delimit the stack itself and add no
  tuple of their own.
\<close>

theorem decode_examples:
  "parseStackElement L ''()'' = Null
   \<and> parseStackElement L ''(5)'' = Tuple [Integer 5]
   \<and> parseStack L ''[ 1 2 [ 3 ] ]'' = Inr (Some [Integer 1, Integer 2, Tuple [Integer 3]])"
  by (simp add: parseStack_def padBrackets_def parseWords.simps Let_def decode_simps)

text \<open>The same with the cell decoder that rejects everything.\<close>

theorem decode_examples_witness:
  "parseStackElement rejectingCore ''()'' = Null
   \<and> parseStackElement rejectingCore ''(5)'' = Tuple [Integer 5]
   \<and> parseStack rejectingCore ''[ 1 2 [ 3 ] ]'' = Inr (Some [Integer 1, Integer 2, Tuple [Integer 3]])"
  by (rule decode_examples)

text \<open>Claim C6 as stated fails: the result for \<^verbatim>\<open>[ 1 2 [ 3 ] ]\<close> is not a
  one-element sequence holding a three-element tuple.\<close>

theorem decode_nested_line_counterexample:
  "parseStack rejectingCore ''[ 1 2 [ 3 ] ]''
     \<noteq> Inr (Some [Tuple [Integer 1, Integer 2, Tuple [Integer 3]]])"
  by (simp add: parseStack_def padBrackets_def parseWords.simps Let_def decode_simps)

section \<open>Properties of the stack-effect notation parser\<close>

lemma includesStr_iff: "includesStr s sub \<longleftrightarrow> (\<exists>pre post. s = pre @ sub @ post)"
proof
  assume "includesStr s sub"
  then have "\<exists>i. prefix sub (drop i s)"
    unfolding includesStr_def list_ex_iff by blast
  then obtain i post where "drop i s = sub @ post" by (auto simp: prefix_def)
  then have "s = take i s @ sub @ post" by (metis append_take_drop_id)
  then show "\<exists>pre post. s = pre @ sub @ post" by blast
next
  assume "\<exists>pre post. s = pre @ sub @ post"
  then obtain pre post where s: "s = pre @ sub @ post" by blast
  have "length pre \<in> set [0..<Suc (length s)]" by (simp add: s)
  moreover have "prefix sub (drop (length pre) s)" by (simp add: s)
  ultimately show "includesStr s sub" unfolding includesStr_def list_ex_iff by blast
qed

lemma splitSpaces_nonempty: "splitSpaces s \<noteq> []"
  by (induction s) (auto split: list.splits)

lemma splitSpaces_leading_space:
  "s \<noteq> [] \<Longrightarrow> isSpace (hd s) \<Longrightarrow> \<exists>ws. splitSpaces s = [] # ws"
  by (induction s) auto

lemma splitSpaces_first_prefix: "splitSpaces s = w # ws \<Longrightarrow> prefix w s"
proof (induction s arbitrary: w ws)
  case Nil
  then show ?case by simp
next
  case (Cons c cs)
  show ?case
  proof (cases "isSpace c")
    case True
    then have "\<exists>vs. splitSpaces (c # cs) = [] # vs"
      using splitSpaces_leading_space [of "c # cs"] by simp
    with Cons.prems have "w = []" by auto
    then show ?thesis by simp
  next
    case False
    obtain w0 vs where sp: "splitSpaces cs = w0 # vs"
      using splitSpaces_nonempty [of cs] by (cases "splitSpaces cs") auto
    with False Cons.prems have "w = c # w0" by simp
    moreover from sp have "prefix w0 cs" by (rule Cons.IH)
    ultimately show ?thesis by simp
  qed
qed

lemma splitSpaces_token_occurs: "w \<in> set (splitSpaces s) \<Longrightarrow> \<exists>pre post. s = pre @ w @ post"
proof (induction s arbitrary: w)
  case Nil
  then show ?case by simp
next
  case (Cons c cs)
  show ?case
  proof (cases "w \<in> set (splitSpaces cs)")
    case True
    then obtain pre post where "cs = pre @ w @ post" using Cons.IH by blast
    then have "c # cs = (c # pre) @ w @ post" by simp
    then show ?thesis by blast
  next
    case False
    show ?thesis
    proof (cases "isSpace c")
      case True
      with False Cons.prems have "w = []" by (auto split: if_splits)
      then have "c # cs = [] @ w @ (c # cs)" by simp
      then show ?thesis by blast
    next
      case nsp: False
      obtain w0 vs where sp: "splitSpaces cs = w0 # vs"
        using splitSpaces_nonempty [of cs] by (cases "splitSpaces cs") auto
      with nsp False Cons.prems have "w = c # w0" by auto
      moreover from sp have "prefix w0 cs" by (rule splitSpaces_first_prefix)
      then obtain post where "cs = w0 @ post" by (auto simp: prefix_def)
      ultimately have "c # cs = [] @ w @ post" by simp
      then show ?thesis by blast
    qed
  qed
qed

text \<open>
  Claim C7, as the code has it. The parser returns \<^verbatim>\<open>null\<close> for the empty signature, for
  the signature \<^verbatim>\<open>-\<close>, for every signature that contains \<^verbatim>\<open>or\<close> and does not contain
  \<^verbatim>\<open>xor\<close>, and for every signature that contains \<^verbatim>\<open>...\<close>. A signature with the
  standalone word \<^verbatim>\<open>or\<close> (and no \<^verbatim>\<open>xor\<close>) is one of them; so is a signature where
  \<^verbatim>\<open>or\<close> stands inside a longer word, since the test looks for the substring. The
  result \<^verbatim>\<open>null\<close> is never the pair (0, 0), which is a result of its own (of the
  signature of a dash between two spaces).
\<close>

theorem parseOpcodeStackDiff_indeterminate:
  "(sig = [] \<or> sig = ''-'' \<or> (includesStr sig ''or'' \<and> \<not> includesStr sig ''xor'')
        \<or> includesStr sig ''...'' \<longrightarrow> parseOpcodeStackDiff sig = None)
   \<and> (''or'' \<in> set (splitSpaces sig) \<and> \<not> includesStr sig ''xor'' \<longrightarrow> parseOpcodeStackDiff sig = None)
   \<and> (\<forall>pre post. sig = pre @ ''or'' @ post \<and> \<not> includesStr sig ''xor'' \<longrightarrow> parseOpcodeStackDiff sig = None)
   \<and> (parseOpcodeStackDiff sig = None \<longrightarrow> parseOpcodeStackDiff sig \<noteq> Some (0, 0))
   \<and> parseOpcodeStackDiff '' - '' = Some (0, 0)"
proof (intro conjI allI impI)
  assume "sig = [] \<or> sig = ''-'' \<or> (includesStr sig ''or'' \<and> \<not> includesStr sig ''xor'') \<or> includesStr sig ''...''"
  then show "parseOpcodeStackDiff sig = None"
    by (auto simp: parseOpcodeStackDiff_def)
next
  assume a: "''or'' \<in> set (splitSpaces sig) \<and> \<not> includesStr sig ''xor''"
  then have "includesStr sig ''or''"
    using splitSpaces_token_occurs [of "''or''" sig] by (simp only: includesStr_iff)
  with a show "parseOpcodeStackDiff sig = None"
    by (auto simp: parseOpcodeStackDiff_def)
next
  fix pre post
  assume a: "sig = pre @ ''or'' @ post \<and> \<not> includesStr sig ''xor''"
  then have "includesStr sig ''or''" unfolding includesStr_iff by blast
  with a show "parseOpcodeStackDiff sig = None"
    by (auto simp: parseOpcodeStackDiff_def)
next
  assume "parseOpcodeStackDiff sig = None"
  then show "parseOpcodeStackDiff sig \<noteq> Some (0, 0)" by simp
next
  show "parseOpcodeStackDiff '' - '' = Some (0, 0)"
    by (simp add: parseOpcodeStackDiff_def includesStr_def startsWith_def endsWith_def splitStr_def
        countStackItems_def trim_def isSpace_def)
qed

lemmas effect_simps = parseOpcodeStackDiff_def includesStr_def startsWith_def endsWith_def splitStr_def
  countStackItems_def trim_def isSpace_def isWordChar_def matchCompound_def Let_def

text \<open>The theorem at concrete signatures.\<close>

theorem parseOpcodeStackDiff_indeterminate_witness:
  "parseOpcodeStackDiff ''x - y or z'' = None \<and> parseOpcodeStackDiff ''x - ... y'' = None
   \<and> parseOpcodeStackDiff ''fork - x'' = None \<and> parseOpcodeStackDiff ''-'' = None
   \<and> parseOpcodeStackDiff ''-'' \<noteq> Some (0, 0) \<and> parseOpcodeStackDiff '' - '' = Some (0, 0)"
proof -
  have a: "''or'' \<in> set (splitSpaces ''x - y or z'') \<and> \<not> includesStr ''x - y or z'' ''xor''"
    by (simp add: includesStr_def isSpace_def)
  have b: "includesStr ''x - ... y'' ''...''"
    by (simp add: includesStr_def)
  have c: "''fork - x'' = ''f'' @ ''or'' @ ''k - x'' \<and> \<not> includesStr ''fork - x'' ''xor''"
    by (simp add: includesStr_def)
  from parseOpcodeStackDiff_indeterminate [of "''x - y or z''"] a
  have 1: "parseOpcodeStackDiff ''x - y or z'' = None" by blast
  from parseOpcodeStackDiff_indeterminate [of "''x - ... y''"] b
  have 2: "parseOpcodeStackDiff ''x - ... y'' = None" by blast
  from parseOpcodeStackDiff_indeterminate [of "''fork - x''"] c
  have 3: "parseOpcodeStackDiff ''fork - x'' = None" by blast
  from parseOpcodeStackDiff_indeterminate [of "''-''"]
  have 4: "parseOpcodeStackDiff ''-'' = None \<and> parseOpcodeStackDiff ''-'' \<noteq> Some (0, 0)
      \<and> parseOpcodeStackDiff '' - '' = Some (0, 0)" by blast
  from 1 2 3 4 show ?thesis by simp
qed

text \<open>
  Claim C7 as stated fails in its last sentence: in \<^verbatim>\<open>fork - x\<close> the letters \<^verbatim>\<open>or\<close>
  occur only inside a longer word, no other rule applies, and the result is \<^verbatim>\<open>null\<close> all
  the same (a signature of the same shape without them gives (1, 1)).
\<close>

theorem or_inside_word_counterexample:
  "parseOpcodeStackDiff ''fork - x'' = None
   \<and> ''or'' \<notin> set (splitSpaces ''fork - x'')
   \<and> ''fork - x'' \<noteq> [] \<and> ''fork - x'' \<noteq> ''-'' \<and> \<not> includesStr ''fork - x'' ''...''
   \<and> parseOpcodeStackDiff ''fxrk - x'' = Some (1, 1)"
  by (simp add: effect_simps)

text \<open>
  Claim C8 at the signature of a dash, a space, \<^verbatim>\<open>a\<close>, two spaces and \<^verbatim>\<open>b\<close>: the side
  after the dash has two whitespace-separated words, and the parser counts three items,
  because \<^verbatim>\<open>countStackItems\<close> cuts at every single space and counts the empty piece
  between two adjacent spaces. With one space the count is two, and a compound
  \<^verbatim>\<open>x mod y\<close> counts as one.
\<close>

theorem countStackItems_double_space:
  "parseOpcodeStackDiff ''- a  b'' = Some (0, 3)
   \<and> filter (\<lambda>w. w \<noteq> []) (splitSpaces ''a  b'') = [''a'', ''b'']
   \<and> parseOpcodeStackDiff ''- a b'' = Some (0, 2)
   \<and> parseOpcodeStackDiff ''- x mod y'' = Some (0, 1)"
  by (simp add: effect_simps)

section \<open>Properties of the instruction classifier\<close>

lemma findOpcodeInfo_xchg_tier:
  assumes "opcodeStr \<noteq> []" and "opcodes \<noteq> []"
    and "commandParts opcodeStr = cmd # operands"
    and "toUpperCase cmd = ''XCHG''"
    and "find (\<lambda>op. toUpperCase (name op) = ''XCHG'') opcodes = None"
  shows "findOpcodeInfo opcodes opcodeStr =
     (case xchgTier opcodes ''XCHG'' (cmd # operands) of
        Some r \<Rightarrow> r | None \<Rightarrow> laterTiers opcodes ''XCHG'')"
  using assms by (simp add: findOpcodeInfo_def Let_def split: option.splits)

lemma xchgTier_two_slots:
  assumes "filter (\<lambda>p. startsWith p ''s'') operands = p0 # p1 # ps"
    and "parseInt (drop 1 p0) = Some i" and "parseInt (drop 1 p1) = Some j"
  shows "xchgTier opcodes ''XCHG'' (cmd # operands) =
     (if i = 0 then Some (find (\<lambda>op. name op = ''XCHG_0I'') opcodes)
      else if i = 1 \<and> 2 \<le> j then Some (find (\<lambda>op. name op = ''XCHG_1I'') opcodes)
      else if 1 \<le> i \<and> i < j \<and> j \<le> 15 then Some (find (\<lambda>op. name op = ''XCHG_IJ'') opcodes)
      else None)"
  using assms by (auto simp: xchgTier_def Let_def)

text \<open>
  Claim C9. Take an instruction whose command name is \<^verbatim>\<open>XCHG\<close> in any letter case, a
  catalog with no entry of that name, and operands of which the first two that start
  with \<^verbatim>\<open>s\<close> read as the numbers \<open>i\<close> and \<open>j\<close>. Then the classifier answers, in this
  order: the entry \<^verbatim>\<open>XCHG_0I\<close> when \<open>i = 0\<close>; the entry \<^verbatim>\<open>XCHG_1I\<close> when \<open>i = 1\<close> and
  \<open>j \<ge> 2\<close>; the entry \<^verbatim>\<open>XCHG_IJ\<close> when \<open>1 \<le> i < j \<le> 15\<close>; and for every other pair it
  leaves the \<^verbatim>\<open>XCHG\<close> block without a result and goes on with the later tiers. The
  entry is the first one of the catalog with exactly that name, and there is no result
  when the catalog has none.
\<close>

theorem findOpcodeInfo_xchg_ranges:
  assumes "opcodeStr \<noteq> []" and "opcodes \<noteq> []"
    and "commandParts opcodeStr = cmd # operands"
    and "toUpperCase cmd = ''XCHG''"
    and "find (\<lambda>op. toUpperCase (name op) = ''XCHG'') opcodes = None"
    and "filter (\<lambda>p. startsWith p ''s'') operands = p0 # p1 # ps"
    and "parseInt (drop 1 p0) = Some i" and "parseInt (drop 1 p1) = Some j"
  shows "findOpcodeInfo opcodes opcodeStr =
     (if i = 0 then find (\<lambda>op. name op = ''XCHG_0I'') opcodes
      else if i = 1 \<and> 2 \<le> j then find (\<lambda>op. name op = ''XCHG_1I'') opcodes
      else if 1 \<le> i \<and> i < j \<and> j \<le> 15 then find (\<lambda>op. name op = ''XCHG_IJ'') opcodes
      else laterTiers opcodes ''XCHG'')"
  using findOpcodeInfo_xchg_tier [OF assms(1-5)] xchgTier_two_slots [OF assms(6-8), of opcodes cmd]
  by simp

text \<open>The four examples of the claim, on the small catalog, with the whole entry that is
  returned: \<^verbatim>\<open>s5,s2\<close> is left to the later tiers, which find the entry whose description
  names \<^verbatim>\<open>XCHG\<close>.\<close>

theorem findOpcodeInfo_xchg_ranges_witness:
  "findOpcodeInfo sampleCatalog ''XCHG s0,s3'' =
     Some \<lparr>name = ''XCHG_0I'', alias_of = [], doc_fift = ''s[i] XCHG0'',
       doc_description = ''Interchanges s0 with s[i].'', doc_stack = []\<rparr>
   \<and> findOpcodeInfo sampleCatalog ''XCHG s1,s5'' =
     Some \<lparr>name = ''XCHG_1I'', alias_of = [], doc_fift = ''s1 s[i] XCHG'',
       doc_description = ''Interchanges s1 with s[i].'', doc_stack = []\<rparr>
   \<and> findOpcodeInfo sampleCatalog ''XCHG s2,s3'' =
     Some \<lparr>name = ''XCHG_IJ'', alias_of = [], doc_fift = ''s[i] s[j] XCHG'',
       doc_description = ''Interchanges s[i] with s[j].'', doc_stack = []\<rparr>
   \<and> findOpcodeInfo sampleCatalog ''XCHG s5,s2'' =
     Some \<lparr>name = ''XCHG2'', alias_of = [], doc_fift = ''s[i] s[j] XCHG2'',
       doc_description = ''Equivalent to s1 s[i] XCHG s[j] XCHG0.'', doc_stack = []\<rparr>
   \<and> findOpcodeInfo (take 1 sampleCatalog) ''XCHG s0,s3'' = None"
proof -
  have ne: "sampleCatalog \<noteq> []" by (simp add: sampleCatalog_def)
  have up: "toUpperCase ''XCHG'' = ''XCHG''" by code_simp
  have nx: "find (\<lambda>op. toUpperCase (name op) = ''XCHG'') sampleCatalog = None" by code_simp
  have a_parts: "commandParts ''XCHG s0,s3'' = ''XCHG'' # [''s0'', ''s3'']" by code_simp
  have a_slots: "filter (\<lambda>p. startsWith p ''s'') [''s0'', ''s3''] = ''s0'' # ''s3'' # []" by code_simp
  have a_i: "parseInt (drop 1 ''s0'') = Some 0" by code_simp
  have a_j: "parseInt (drop 1 ''s3'') = Some 3" by code_simp
  have b_parts: "commandParts ''XCHG s1,s5'' = ''XCHG'' # [''s1'', ''s5'']" by code_simp
  have b_slots: "filter (\<lambda>p. startsWith p ''s'') [''s1'', ''s5''] = ''s1'' # ''s5'' # []" by code_simp
  have b_i: "parseInt (drop 1 ''s1'') = Some 1" by code_simp
  have b_j: "parseInt (drop 1 ''s5'') = Some 5" by code_simp
  have c_parts: "commandParts ''XCHG s2,s3'' = ''XCHG'' # [''s2'', ''s3'']" by code_simp
  have c_slots: "filter (\<lambda>p. startsWith p ''s'') [''s2'', ''s3''] = ''s2'' # ''s3'' # []" by code_simp
  have c_i: "parseInt (drop 1 ''s2'') = Some 2" by code_simp
  have c_j: "parseInt (drop 1 ''s3'') = Some 3" by code_simp
  have d_parts: "commandParts ''XCHG s5,s2'' = ''XCHG'' # [''s5'', ''s2'']" by code_simp
  have d_slots: "filter (\<lambda>p. startsWith p ''s'') [''s5'', ''s2''] = ''s5'' # ''s2'' # []" by code_simp
  have d_i: "parseInt (drop 1 ''s5'') = Some 5" by code_simp
  have d_j: "parseInt (drop 1 ''s2'') = Some 2" by code_simp
  have a: "findOpcodeInfo sampleCatalog ''XCHG s0,s3'' = find (\<lambda>op. name op = ''XCHG_0I'') sampleCatalog"
    using findOpcodeInfo_xchg_ranges [OF _ ne a_parts up nx a_slots a_i a_j] by simp
  have b: "findOpcodeInfo sampleCatalog ''XCHG s1,s5'' = find (\<lambda>op. name op = ''XCHG_1I'') sampleCatalog"
    using findOpcodeInfo_xchg_ranges [OF _ ne b_parts up nx b_slots b_i b_j] by simp
  have c: "findOpcodeInfo sampleCatalog ''XCHG s2,s3'' = find (\<lambda>op. name op = ''XCHG_IJ'') sampleCatalog"
    using findOpcodeInfo_xchg_ranges [OF _ ne c_parts up nx c_slots c_i c_j] by simp
  have d: "findOpcodeInfo sampleCatalog ''XCHG s5,s2'' = laterTiers sampleCatalog ''XCHG''"
    using findOpcodeInfo_xchg_ranges [OF _ ne d_parts up nx d_slots d_i d_j] by simp
  have ne1: "take 1 sampleCatalog \<noteq> []" by (simp add: sampleCatalog_def)
  have nx1: "find (\<lambda>op. toUpperCase (name op) = ''XCHG'') (take 1 sampleCatalog) = None" by code_simp
  have e: "findOpcodeInfo (take 1 sampleCatalog) ''XCHG s0,s3''
      = find (\<lambda>op. name op = ''XCHG_0I'') (take 1 sampleCatalog)"
    using findOpcodeInfo_xchg_ranges [OF _ ne1 a_parts up nx1 a_slots a_i a_j] by simp
  have f0: "find (\<lambda>op. name op = ''XCHG_0I'') sampleCatalog =
     Some \<lparr>name = ''XCHG_0I'', alias_of = [], doc_fift = ''s[i] XCHG0'',
       doc_description = ''Interchanges s0 with s[i].'', doc_stack = []\<rparr>"
    by (simp add: sampleCatalog_def)
  have f1: "find (\<lambda>op. name op = ''XCHG_1I'') sampleCatalog =
     Some \<lparr>name = ''XCHG_1I'', alias_of = [], doc_fift = ''s1 s[i] XCHG'',
       doc_description = ''Interchanges s1 with s[i].'', doc_stack = []\<rparr>"
    by (simp add: sampleCatalog_def)
  have f2: "find (\<lambda>op. name op = ''XCHG_IJ'') sampleCatalog =
     Some \<lparr>name = ''XCHG_IJ'', alias_of = [], doc_fift = ''s[i] s[j] XCHG'',
       doc_description = ''Interchanges s[i] with s[j].'', doc_stack = []\<rparr>"
    by (simp add: sampleCatalog_def)
  have f3: "laterTiers sampleCatalog ''XCHG'' =
     Some \<lparr>name = ''XCHG2'', alias_of = [], doc_fift = ''s[i] s[j] XCHG2'',
       doc_description = ''Equivalent to s1 s[i] XCHG s[j] XCHG0.'', doc_stack = []\<rparr>"
    by code_simp
  have f4: "find (\<lambda>op. name op = ''XCHG_0I'') (take 1 sampleCatalog) = None"
    by (simp add: sampleCatalog_def)
  from a b c d e f0 f1 f2 f3 f4 show ?thesis by simp
qed

text \<open>
  Claim C10. Under the same conditions, when the first slot index is 0 the answer is the
  entry \<^verbatim>\<open>XCHG_0I\<close> whatever number \<open>j\<close> the second operand reads as: no range is checked
  for \<open>j\<close>.
\<close>

theorem findOpcodeInfo_xchg_slot0_unchecked:
  assumes "opcodeStr \<noteq> []" and "opcodes \<noteq> []"
    and "commandParts opcodeStr = cmd # operands"
    and "toUpperCase cmd = ''XCHG''"
    and "find (\<lambda>op. toUpperCase (name op) = ''XCHG'') opcodes = None"
    and "filter (\<lambda>p. startsWith p ''s'') operands = p0 # p1 # ps"
    and "parseInt (drop 1 p0) = Some 0" and "parseInt (drop 1 p1) = Some j"
  shows "findOpcodeInfo opcodes opcodeStr = find (\<lambda>op. name op = ''XCHG_0I'') opcodes"
  using findOpcodeInfo_xchg_tier [OF assms(1-5)] xchgTier_two_slots [OF assms(6-8), of opcodes cmd]
  by simp

text \<open>With second indices 0, 99 and -7.\<close>

theorem findOpcodeInfo_xchg_slot0_unchecked_witness:
  "map_option name (findOpcodeInfo sampleCatalog ''XCHG s0,s0'') = Some ''XCHG_0I''
   \<and> map_option name (findOpcodeInfo sampleCatalog ''XCHG s0,s99'') = Some ''XCHG_0I''
   \<and> map_option name (findOpcodeInfo sampleCatalog ''xchg s0, s-7'') = Some ''XCHG_0I''"
proof -
  have ne: "sampleCatalog \<noteq> []" by (simp add: sampleCatalog_def)
  have up: "toUpperCase ''XCHG'' = ''XCHG''" by code_simp
  have low: "toUpperCase ''xchg'' = ''XCHG''" by code_simp
  have nx: "find (\<lambda>op. toUpperCase (name op) = ''XCHG'') sampleCatalog = None" by code_simp
  have a_parts: "commandParts ''XCHG s0,s0'' = ''XCHG'' # [''s0'', ''s0'']" by code_simp
  have a_slots: "filter (\<lambda>p. startsWith p ''s'') [''s0'', ''s0''] = ''s0'' # ''s0'' # []" by code_simp
  have a_i: "parseInt (drop 1 ''s0'') = Some 0" by code_simp
  have a_j: "parseInt (drop 1 ''s0'') = Some 0" by code_simp
  have b_parts: "commandParts ''XCHG s0,s99'' = ''XCHG'' # [''s0'', ''s99'']" by code_simp
  have b_slots: "filter (\<lambda>p. startsWith p ''s'') [''s0'', ''s99''] = ''s0'' # ''s99'' # []" by code_simp
  have b_i: "parseInt (drop 1 ''s0'') = Some 0" by code_simp
  have b_j: "parseInt (drop 1 ''s99'') = Some 99" by code_simp
  have c_parts: "commandParts ''xchg s0, s-7'' = ''xchg'' # [''s0'', [], ''s-7'']" by code_simp
  have c_slots: "filter (\<lambda>p. startsWith p ''s'') [''s0'', [], ''s-7''] = ''s0'' # ''s-7'' # []" by code_simp
  have c_i: "parseInt (drop 1 ''s0'') = Some 0" by code_simp
  have c_j: "parseInt (drop 1 ''s-7'') = Some (- 7)" by code_simp
  have a: "findOpcodeInfo sampleCatalog ''XCHG s0,s0'' = find (\<lambda>op. name op = ''XCHG_0I'') sampleCatalog"
    using findOpcodeInfo_xchg_slot0_unchecked [OF _ ne a_parts up nx a_slots a_i a_j] by simp
  have b: "findOpcodeInfo sampleCatalog ''XCHG s0,s99'' = find (\<lambda>op. name op = ''XCHG_0I'') sampleCatalog"
    using findOpcodeInfo_xchg_slot0_unchecked [OF _ ne b_parts up nx b_slots b_i b_j] by simp
  have c: "findOpcodeInfo sampleCatalog ''xchg s0, s-7'' = find (\<lambda>op. name op = ''XCHG_0I'') sampleCatalog"
    using findOpcodeInfo_xchg_slot0_unchecked [OF _ ne c_parts low nx c_slots c_i c_j] by simp
  have found: "map_option name (find (\<lambda>op. name op = ''XCHG_0I'') sampleCatalog) = Some ''XCHG_0I''"
    by code_simp
  from a b c found show ?thesis by simp
qed

section \<open>Properties of the locator resolver\<close>

subsection \<open>References without a colon\<close>

lemma splitOn_no_separator: "c \<notin> set s \<Longrightarrow> splitOn [c] cur s = [rev cur @ s]"
  by (induction s arbitrary: cur) auto


lemma startsWith_colon: "startsWith s p \<Longrightarrow> c \<in> set p \<Longrightarrow> c \<in> set s"
  unfolding startsWith_def by (auto simp: prefix_def)


lemma linkToTx_no_colon:
  assumes "CHR '':'' \<notin> set txLink"
  shows "linkToTx E txLink forcedTestnet = fallbackFormats E txLink forcedTestnet"
proof -
  have "\<not> startsWith txLink p" if "CHR '':'' \<in> set p" for p
    using assms that startsWith_colon by blast
  then show ?thesis by (simp add: linkToTx_def)
qed


lemma tryLtHash_no_colon:
  assumes "CHR '':'' \<notin> set txLink"
  shows "\<exists>m. tryLtHash E txLink forcedTestnet tried = (Inl (m, tried), [])"
  using assms
  by (simp add: tryLtHash_def splitStr_def splitOn_no_separator split: sum.splits)


lemma fallbackFormats_no_colon:
  assumes "CHR '':'' \<notin> set txLink"
  shows "fallbackFormats E txLink forcedTestnet =
     (case tryBareHash E txLink forcedTestnet knownFormats of
        (Inr r, calls) \<Rightarrow> (Inr r, calls)
      | (Inl (m, tried), calls) \<Rightarrow> (Inl (unrecognizedLink tried m), calls))"
proof -
  obtain m where "tryLtHash E txLink forcedTestnet knownFormats = (Inl (m, knownFormats), [])"
    using tryLtHash_no_colon [OF assms] by blast
  then show ?thesis by (simp add: fallbackFormats_def split: prod.splits sum.splits)
qed

lemma tryBareHash_wrong_length:
  assumes "\<not> endsWith txLink ''=''" and "length txLink \<noteq> 64"
  shows "tryBareHash E txLink forcedTestnet tried =
     (Inl (''Seems like hash, but not of length 64. Probably missing letters'', tried), [])"
  using assms by (simp add: tryBareHash_def)

lemma mainnetThenTestnet_found:
  assumes "toncenter E False h = Inr (t # ts)"
  shows "mainnetThenTestnet E label h tried = (Inr (t # ts), False, tried, [FetchTransactions h False])"
  using assms by (simp add: mainnetThenTestnet_def fetchTransactions_def)

lemma mainnetThenTestnet_retry:
  assumes "\<And>t ts. toncenter E False h \<noteq> Inr (t # ts)"
  shows "mainnetThenTestnet E label h tried =
     (let tried1 = (if toncenter E False h = Inr [] then tried @ [label @ '' mainnet''] else tried);
          calls = [FetchTransactions h False, WaitForRateLimit, FetchTransactions h True]
      in case toncenter E True h of
           Inl m \<Rightarrow> (Inl (''Get transactions on Toncenter V3: '' @ m), True, tried1, calls)
         | Inr [] \<Rightarrow> (Inl ''nope'', True, tried1 @ [label @ '' testnet''], calls)
         | Inr (t # ts) \<Rightarrow> (Inr (t # ts), True, tried1, calls))"
proof (cases "toncenter E False h")
  case (Inl m)
  then show ?thesis
    by (cases "toncenter E True h")
       (simp_all add: mainnetThenTestnet_def fetchTransactions_def split: list.splits)
next
  case (Inr txs)
  with assms have "txs = []" by (cases txs) auto
  with Inr show ?thesis
    by (cases "toncenter E True h")
       (simp_all add: mainnetThenTestnet_def fetchTransactions_def split: list.splits)
qed

lemma mainnetThenTestnet_calls:
  "snd (snd (snd (mainnetThenTestnet E label h tried))) =
     (case toncenter E False h of
        Inr (t # ts) \<Rightarrow> [FetchTransactions h False]
      | _ \<Rightarrow> [FetchTransactions h False, WaitForRateLimit, FetchTransactions h True])"
proof (cases "\<exists>t ts. toncenter E False h = Inr (t # ts)")
  case True
  then obtain t ts where f: "toncenter E False h = Inr (t # ts)" by blast
  show ?thesis by (simp add: mainnetThenTestnet_found [OF f] f)
next
  case False
  then have n: "\<And>t ts. toncenter E False h \<noteq> Inr (t # ts)" by blast
  have shape: "(case toncenter E False h of
        Inr (t # ts) \<Rightarrow> [FetchTransactions h False]
      | _ \<Rightarrow> [FetchTransactions h False, WaitForRateLimit, FetchTransactions h True])
      = [FetchTransactions h False, WaitForRateLimit, FetchTransactions h True]"
    using n by (simp split: sum.splits list.splits)
  show ?thesis
    unfolding shape mainnetThenTestnet_retry [OF n]
    by (simp add: Let_def split: sum.splits list.splits)
qed

lemma tryBareHash_forced_calls:
  assumes "h = (if endsWith txLink ''='' then toHex (bufferFromBase64 E txLink) else txLink)"
    and "length h = 64"
  shows "snd (tryBareHash E txLink (Some True) tried) = [WaitForRateLimit, FetchTransactions h True]"
  using assms by (simp add: tryBareHash_def Let_def split: sum.splits)

lemma tryBareHash_unforced:
  assumes "h = (if endsWith txLink ''='' then toHex (bufferFromBase64 E txLink) else txLink)"
    and "length h = 64" and "forcedTestnet \<noteq> Some True"
  shows "tryBareHash E txLink forcedTestnet tried =
     (case mainnetThenTestnet E ''bare hash'' h tried of
        (Inl m, testnet, tried', calls) \<Rightarrow> (Inl (m, tried'), WaitForRateLimit # calls)
      | (Inr txs, testnet, tried', calls) \<Rightarrow>
          (case fromIndexed E txs testnet of
             Inl m \<Rightarrow> (Inl (m, tried'), WaitForRateLimit # calls)
           | Inr r \<Rightarrow> (Inr r, WaitForRateLimit # calls)))"
  using assms by (simp add: tryBareHash_def Let_def)

lemma tryBareHash_unforced_calls:
  assumes "h = (if endsWith txLink ''='' then toHex (bufferFromBase64 E txLink) else txLink)"
    and "length h = 64" and "forcedTestnet \<noteq> Some True"
  shows "snd (tryBareHash E txLink forcedTestnet tried) =
     WaitForRateLimit # snd (snd (snd (mainnetThenTestnet E ''bare hash'' h tried)))"
  unfolding tryBareHash_unforced [OF assms]
  by (simp split: prod.splits sum.splits)

lemma tryBareHash_both_empty:
  assumes "h = (if endsWith txLink ''='' then toHex (bufferFromBase64 E txLink) else txLink)"
    and "length h = 64" and "forcedTestnet \<noteq> Some True"
    and "toncenter E False h = Inr []" and "toncenter E True h = Inr []"
  shows "fst (tryBareHash E txLink forcedTestnet tried) =
     Inl (''nope'', tried @ [''bare hash mainnet'', ''bare hash testnet''])"
proof -
  have n: "\<And>t ts. toncenter E False h \<noteq> Inr (t # ts)" using assms(4) by simp
  show ?thesis
    unfolding tryBareHash_unforced [OF assms(1-3)] mainnetThenTestnet_retry [OF n]
    by (simp add: assms(4,5))
qed

lemma snd_case_attempt:
  "snd (case a of (Inr r, calls) \<Rightarrow> (Inr r, calls) | (Inl (m, tried), calls) \<Rightarrow> (Inl (f tried m), calls)) = snd a"
  by (auto split: prod.splits sum.splits)


lemma unrecognizedLink_both:
  "unrecognizedLink (knownFormats @ [''bare hash mainnet'', ''bare hash testnet'']) ''nope'' =
   ''Coudn't recognize such link, tried all formats: ton.cx, tonviewer, tonscan, toncoin.org, dton, bare hash mainnet, bare hash testnet. ''"
  by (simp add: unrecognizedLink_def knownFormats_def)


lemma unrecognizedLink_length:
  "unrecognizedLink knownFormats ''Seems like hash, but not of length 64. Probably missing letters'' =
   ''Coudn't recognize such link, tried all formats: ton.cx, tonviewer, tonscan, toncoin.org, dton. Got strange error: Seems like hash, but not of length 64. Probably missing letters''"
  by (simp add: unrecognizedLink_def knownFormats_def)

text \<open>
  Claim C2, as the code has it. Take a reference with no colon in it (so none of the
  explorer shapes and no \<^verbatim>\<open>lt:hash\<close> pair) that does not end in \<^verbatim>\<open>=\<close>. When its length
  is not 64, resolution fails at once with the error that lists the formats tried, and
  no call is made, neither to the rate limiter nor to the index. When its length is 64
  the resolver does not look at the characters: it waits for the rate limiter and sends
  the string to the index as a hash (to the testnet index when testnet is forced, to the
  mainnet index otherwise), whether or not it is hexadecimal.
\<close>

theorem linkToTx_bare_reference_length:
  assumes "CHR '':'' \<notin> set txLink" and "\<not> endsWith txLink ''=''"
  shows "(length txLink \<noteq> 64 \<longrightarrow>
            linkToTx E txLink forcedTestnet =
              (Inl ''Coudn't recognize such link, tried all formats: ton.cx, tonviewer, tonscan, toncoin.org, dton. Got strange error: Seems like hash, but not of length 64. Probably missing letters'', []))
       \<and> (length txLink = 64 \<longrightarrow>
            take 2 (snd (linkToTx E txLink forcedTestnet)) =
              [WaitForRateLimit, FetchTransactions txLink (forcedTestnet = Some True)])"
proof (intro conjI impI)
  assume len: "length txLink \<noteq> 64"
  show "linkToTx E txLink forcedTestnet =
      (Inl ''Coudn't recognize such link, tried all formats: ton.cx, tonviewer, tonscan, toncoin.org, dton. Got strange error: Seems like hash, but not of length 64. Probably missing letters'', [])"
    unfolding linkToTx_no_colon [OF assms(1)] fallbackFormats_no_colon [OF assms(1)]
      tryBareHash_wrong_length [OF assms(2) len]
    by (simp only: prod.case sum.case unrecognizedLink_length)
next
  assume len: "length txLink = 64"
  have h: "txLink = (if endsWith txLink ''='' then toHex (bufferFromBase64 E txLink) else txLink)"
    using assms(2) by simp
  have calls: "snd (linkToTx E txLink forcedTestnet) = snd (tryBareHash E txLink forcedTestnet knownFormats)"
    unfolding linkToTx_no_colon [OF assms(1)] fallbackFormats_no_colon [OF assms(1)]
    by (rule snd_case_attempt)
  show "take 2 (snd (linkToTx E txLink forcedTestnet)) =
      [WaitForRateLimit, FetchTransactions txLink (forcedTestnet = Some True)]"
  proof (cases "forcedTestnet = Some True")
    case True
    then show ?thesis
      using tryBareHash_forced_calls [OF h len, of knownFormats] calls by simp
  next
    case False
    then show ?thesis
      using tryBareHash_unforced_calls [OF h len False, of knownFormats] calls
      by (simp add: mainnetThenTestnet_calls split: sum.splits list.splits)
  qed
qed

text \<open>A reference of 16 characters, and one of 64 letters \<^verbatim>\<open>z\<close>.\<close>

theorem linkToTx_bare_reference_length_witness:
  "linkToTx emptyIndex ''3e5f49798de239da'' None =
     (Inl ''Coudn't recognize such link, tried all formats: ton.cx, tonviewer, tonscan, toncoin.org, dton. Got strange error: Seems like hash, but not of length 64. Probably missing letters'', [])
   \<and> take 2 (snd (linkToTx emptyIndex ''zzzzzzzzzzzzzzzzzzzzzzzzzzzzzzzzzzzzzzzzzzzzzzzzzzzzzzzzzzzzzzzz'' None)) =
     [WaitForRateLimit, FetchTransactions ''zzzzzzzzzzzzzzzzzzzzzzzzzzzzzzzzzzzzzzzzzzzzzzzzzzzzzzzzzzzzzzzz'' False]"
proof -
  have a: "CHR '':'' \<notin> set ''3e5f49798de239da'' \<and> \<not> endsWith ''3e5f49798de239da'' ''=''
      \<and> length ''3e5f49798de239da'' \<noteq> 64"
    by (simp add: endsWith_def)
  have b: "CHR '':'' \<notin> set ''zzzzzzzzzzzzzzzzzzzzzzzzzzzzzzzzzzzzzzzzzzzzzzzzzzzzzzzzzzzzzzzz''
      \<and> \<not> endsWith ''zzzzzzzzzzzzzzzzzzzzzzzzzzzzzzzzzzzzzzzzzzzzzzzzzzzzzzzzzzzzzzzz'' ''=''
      \<and> length ''zzzzzzzzzzzzzzzzzzzzzzzzzzzzzzzzzzzzzzzzzzzzzzzzzzzzzzzzzzzzzzzz'' = 64"
    by (simp add: endsWith_def)
  from a linkToTx_bare_reference_length [of "''3e5f49798de239da''" emptyIndex None]
  have 1: "linkToTx emptyIndex ''3e5f49798de239da'' None =
     (Inl ''Coudn't recognize such link, tried all formats: ton.cx, tonviewer, tonscan, toncoin.org, dton. Got strange error: Seems like hash, but not of length 64. Probably missing letters'', [])"
    by blast
  from b linkToTx_bare_reference_length
    [of "''zzzzzzzzzzzzzzzzzzzzzzzzzzzzzzzzzzzzzzzzzzzzzzzzzzzzzzzzzzzzzzzz''" emptyIndex None]
  have 2: "take 2 (snd (linkToTx emptyIndex ''zzzzzzzzzzzzzzzzzzzzzzzzzzzzzzzzzzzzzzzzzzzzzzzzzzzzzzzzzzzzzzzz'' None)) =
     [WaitForRateLimit, FetchTransactions ''zzzzzzzzzzzzzzzzzzzzzzzzzzzzzzzzzzzzzzzzzzzzzzzzzzzzzzzzzzzzzzzz'' (None = Some True)]"
    by blast
  from 1 2 show ?thesis by simp
qed

text \<open>
  Claim C2 as stated fails: 64 letters \<^verbatim>\<open>z\<close> are 64 characters, not hexadecimal and not
  ending in \<^verbatim>\<open>=\<close>, and resolving them queries the index of both networks.
\<close>

theorem linkToTx_non_hex_counterexample:
  "length ''zzzzzzzzzzzzzzzzzzzzzzzzzzzzzzzzzzzzzzzzzzzzzzzzzzzzzzzzzzzzzzzz'' = 64
   \<and> \<not> endsWith ''zzzzzzzzzzzzzzzzzzzzzzzzzzzzzzzzzzzzzzzzzzzzzzzzzzzzzzzzzzzzzzzz'' ''=''
   \<and> digitsValue 16 0 ''zzzzzzzzzzzzzzzzzzzzzzzzzzzzzzzzzzzzzzzzzzzzzzzzzzzzzzzzzzzzzzzz'' = None
   \<and> snd (linkToTx emptyIndex ''zzzzzzzzzzzzzzzzzzzzzzzzzzzzzzzzzzzzzzzzzzzzzzzzzzzzzzzzzzzzzzzz'' None) =
       [WaitForRateLimit,
        FetchTransactions ''zzzzzzzzzzzzzzzzzzzzzzzzzzzzzzzzzzzzzzzzzzzzzzzzzzzzzzzzzzzzzzzz'' False,
        WaitForRateLimit,
        FetchTransactions ''zzzzzzzzzzzzzzzzzzzzzzzzzzzzzzzzzzzzzzzzzzzzzzzzzzzzzzzzzzzzzzzz'' True]"
  by code_simp


subsection \<open>The order of the lookups\<close>

lemma lookupCalls_cases:
  "lookupCalls E h = [FetchTransactions h False]
   \<or> lookupCalls E h = [FetchTransactions h False, WaitForRateLimit, FetchTransactions h True]"
  by (simp add: lookupCalls_def split: sum.splits list.splits)

lemma testnet_in_lookupCalls:
  assumes "FetchTransactions h True \<in> set (lookupCalls E k)"
  shows "h = k \<and> (\<forall>t ts. toncenter E False h \<noteq> Inr (t # ts))"
  using assms by (auto simp: lookupCalls_def split: sum.splits list.splits)

lemma mainnetThenTestnet_lookupCalls:
  "snd (snd (snd (mainnetThenTestnet E label h tried))) = lookupCalls E h"
  by (simp add: mainnetThenTestnet_calls lookupCalls_def)

lemma linkToTx_no_explorer:
  assumes "\<not> isExplorerLink txLink"
  shows "linkToTx E txLink forcedTestnet = fallbackFormats E txLink forcedTestnet"
  using assms by (simp add: linkToTx_def isExplorerLink_def explorerPrefixes_def)

lemma tryLtHash_unforced_calls:
  assumes "forcedTestnet \<noteq> Some True"
    and "splitStr txLink '':'' = ltStr # hashStr # others"
    and "BigInt ltStr \<noteq> None"
  shows "snd (tryLtHash E txLink forcedTestnet tried) = lookupCalls E hashStr"
proof -
  obtain r tn tr calls where m: "mainnetThenTestnet E ''lt:hash'' hashStr tried = (r, tn, tr, calls)"
    by (metis prod_cases4)
  have c: "calls = lookupCalls E hashStr"
    using mainnetThenTestnet_lookupCalls [of E "''lt:hash''" hashStr tried] m by simp
  obtain l where l: "BigInt ltStr = Some l" using assms(3) by blast
  show ?thesis
  proof (cases r)
    case (Inl e)
    with m c l assms(1,2) show ?thesis
      by (simp add: tryLtHash_def bigIntOrThrow_def)
  next
    case (Inr txs)
    show ?thesis
    proof (cases txs)
      case Nil
      with Inr m c l assms(1,2) show ?thesis
        by (simp add: tryLtHash_def bigIntOrThrow_def)
    next
      case (Cons t ts)
      with Inr m c l assms(1,2) show ?thesis
        by (cases "addressParseRaw E (account t)") (simp_all add: tryLtHash_def bigIntOrThrow_def)
    qed
  qed
qed

lemma tryLtHash_both_empty:
  assumes "forcedTestnet \<noteq> Some True"
    and "splitStr txLink '':'' = ltStr # hashStr # others"
    and "BigInt ltStr \<noteq> None"
    and "toncenter E False hashStr = Inr []" and "toncenter E True hashStr = Inr []"
  shows "fst (tryLtHash E txLink forcedTestnet tried) =
     Inl (''nope'', tried @ [''lt:hash mainnet'', ''lt:hash testnet''])"
proof -
  have n: "\<And>t ts. toncenter E False hashStr \<noteq> Inr (t # ts)" using assms(4) by simp
  obtain l where l: "BigInt ltStr = Some l" using assms(3) by blast
  have m: "mainnetThenTestnet E ''lt:hash'' hashStr tried =
      (Inl ''nope'', True, tried @ [''lt:hash mainnet'', ''lt:hash testnet''],
       [FetchTransactions hashStr False, WaitForRateLimit, FetchTransactions hashStr True])"
    unfolding mainnetThenTestnet_retry [OF n] by (simp add: assms(4,5))
  show ?thesis
    using m l assms(1,2) by (simp add: tryLtHash_def bigIntOrThrow_def)
qed

lemma tryLtHash_shape:
  assumes "forcedTestnet \<noteq> Some True"
  shows "snd (tryLtHash E txLink forcedTestnet tried) = []
       \<or> (\<exists>h. snd (tryLtHash E txLink forcedTestnet tried) = lookupCalls E h)"
proof (cases "splitStr txLink '':''")
  case Nil
  then show ?thesis
    by (simp add: tryLtHash_def split: sum.splits)
next
  case (Cons ltStr rest)
  show ?thesis
  proof (cases "BigInt ltStr")
    case None
    with Cons show ?thesis by (simp add: tryLtHash_def bigIntOrThrow_def)
  next
    case (Some l)
    show ?thesis
    proof (cases rest)
      case Nil
      with Cons Some show ?thesis by (simp add: tryLtHash_def bigIntOrThrow_def)
    next
      case (Cons hashStr others)
      with \<open>splitStr txLink '':'' = ltStr # rest\<close>
      have p: "splitStr txLink '':'' = ltStr # hashStr # others" by simp
      have "BigInt ltStr \<noteq> None" using Some by simp
      from tryLtHash_unforced_calls [OF assms p this] show ?thesis by blast
    qed
  qed
qed

lemma tryBareHash_shape:
  assumes "forcedTestnet \<noteq> Some True"
  shows "snd (tryBareHash E txLink forcedTestnet tried) = []
       \<or> (\<exists>h. snd (tryBareHash E txLink forcedTestnet tried) = WaitForRateLimit # lookupCalls E h)"
proof -
  define h where "h = (if endsWith txLink ''='' then toHex (bufferFromBase64 E txLink) else txLink)"
  show ?thesis
  proof (cases "length h = 64")
    case True
    from tryBareHash_unforced_calls [OF h_def True assms, of tried]
    have "snd (tryBareHash E txLink forcedTestnet tried) = WaitForRateLimit # lookupCalls E h"
      by (simp only: mainnetThenTestnet_lookupCalls)
    then show ?thesis by blast
  next
    case False
    then show ?thesis by (simp add: tryBareHash_def h_def)
  qed
qed

lemma fallbackFormats_calls:
  "\<exists>tried. snd (fallbackFormats E txLink forcedTestnet) = snd (tryLtHash E txLink forcedTestnet knownFormats)
     \<or> snd (fallbackFormats E txLink forcedTestnet) =
         snd (tryLtHash E txLink forcedTestnet knownFormats) @ snd (tryBareHash E txLink forcedTestnet tried)"
proof (cases "tryLtHash E txLink forcedTestnet knownFormats")
  case (Pair r calls0)
  show ?thesis
  proof (cases r)
    case (Inr res)
    with Pair show ?thesis by (simp add: fallbackFormats_def)
  next
    case (Inl mt)
    obtain m tried0 where mt: "mt = (m, tried0)" by (cases mt)
    obtain r1 calls1 where b: "tryBareHash E txLink forcedTestnet tried0 = (r1, calls1)"
      by (cases "tryBareHash E txLink forcedTestnet tried0")
    have "snd (fallbackFormats E txLink forcedTestnet) = calls0 @ calls1"
      using Pair Inl mt b by (cases r1) (auto simp: fallbackFormats_def)
    with Pair b show ?thesis by (metis snd_conv)
  qed
qed

lemma fallbackFormats_shape:
  assumes "forcedTestnet \<noteq> Some True"
  shows "\<exists>c0 c1. snd (fallbackFormats E txLink forcedTestnet) = c0 @ c1
     \<and> (c0 = [] \<or> (\<exists>h. c0 = lookupCalls E h))
     \<and> (c1 = [] \<or> (\<exists>h. c1 = WaitForRateLimit # lookupCalls E h))"
proof -
  let ?first = "snd (tryLtHash E txLink forcedTestnet knownFormats)"
  obtain tried where d: "snd (fallbackFormats E txLink forcedTestnet) = ?first
     \<or> snd (fallbackFormats E txLink forcedTestnet) =
         ?first @ snd (tryBareHash E txLink forcedTestnet tried)"
    using fallbackFormats_calls [of E txLink forcedTestnet] by blast
  note first = tryLtHash_shape [OF assms, of E txLink knownFormats]
  note second = tryBareHash_shape [OF assms, of E txLink tried]
  show ?thesis
  proof (cases "snd (fallbackFormats E txLink forcedTestnet) = ?first")
    case True
    show ?thesis
      by (rule exI [of _ ?first], rule exI [of _ "[]"]) (simp add: True first)
  next
    case False
    with d have "snd (fallbackFormats E txLink forcedTestnet) =
        ?first @ snd (tryBareHash E txLink forcedTestnet tried)"
      by blast
    then show ?thesis
      by (intro exI [of _ ?first] exI [of _ "snd (tryBareHash E txLink forcedTestnet tried)"] conjI)
         (simp_all add: first second)
  qed
qed

lemma testnetAfterMainnet_shape:
  assumes "c0 = [] \<or> (\<exists>h. c0 = lookupCalls E h)"
    and "c1 = [] \<or> (\<exists>h. c1 = WaitForRateLimit # lookupCalls E h)"
  shows "testnetAfterMainnet (c0 @ c1)"
proof -
  have a: "c0 = [] \<or> (\<exists>h. c0 = [FetchTransactions h False])
      \<or> (\<exists>h. c0 = [FetchTransactions h False, WaitForRateLimit, FetchTransactions h True])"
    using assms(1) lookupCalls_cases [of E] by metis
  have b: "c1 = [] \<or> (\<exists>k. c1 = [WaitForRateLimit, FetchTransactions k False])
      \<or> (\<exists>k. c1 = [WaitForRateLimit, FetchTransactions k False, WaitForRateLimit, FetchTransactions k True])"
    using assms(2) lookupCalls_cases [of E] by metis
  from a b show ?thesis by (elim disjE exE) simp_all
qed

lemma testnet_in_shape:
  assumes "c0 = [] \<or> (\<exists>h. c0 = lookupCalls E h)"
    and "c1 = [] \<or> (\<exists>h. c1 = WaitForRateLimit # lookupCalls E h)"
    and "FetchTransactions h True \<in> set (c0 @ c1)"
  shows "\<forall>t ts. toncenter E False h \<noteq> Inr (t # ts)"
proof -
  from assms(3) have "FetchTransactions h True \<in> set c0 \<or> FetchTransactions h True \<in> set c1" by simp
  then obtain k where "FetchTransactions h True \<in> set (lookupCalls E k)"
    using assms(1,2) by auto
  from testnet_in_lookupCalls [OF this] show ?thesis by blast
qed

lemma linkToTx_bare_hash_calls:
  assumes "CHR '':'' \<notin> set txLink" and "forcedTestnet \<noteq> Some True"
    and "h = (if endsWith txLink ''='' then toHex (bufferFromBase64 E txLink) else txLink)"
    and "length h = 64"
  shows "snd (linkToTx E txLink forcedTestnet) = WaitForRateLimit # lookupCalls E h"
proof -
  have "snd (linkToTx E txLink forcedTestnet) = snd (tryBareHash E txLink forcedTestnet knownFormats)"
    unfolding linkToTx_no_colon [OF assms(1)] fallbackFormats_no_colon [OF assms(1)]
    by (rule snd_case_attempt)
  also have "\<dots> = WaitForRateLimit # snd (snd (snd (mainnetThenTestnet E ''bare hash'' h knownFormats)))"
    by (rule tryBareHash_unforced_calls [OF assms(3,4,2)])
  finally show ?thesis by (simp only: mainnetThenTestnet_lookupCalls)
qed

lemma hashOnlyLink_calls: "snd (hashOnlyLink E infoPart testnet bytes) = [FetchTransactions infoPart testnet]"
  by (simp add: hashOnlyLink_def split: sum.splits list.splits)

lemma hashOnlyLink_empty:
  "toncenter E testnet infoPart = Inr [] \<Longrightarrow>
   fst (hashOnlyLink E infoPart testnet bytes) = Inl (undefinedProperty ''account'')"
  by (simp add: hashOnlyLink_def fetchTransactions_def)

lemma linkToTx_hashOnlyPayload:
  assumes "forcedTestnet \<noteq> Some True" and "hashOnlyPayload txLink = Some (h, tn)"
  shows "\<exists>bytes. linkToTx E txLink forcedTestnet = hashOnlyLink E h tn bytes"
  using assms
  by (simp add: linkToTx_def hashOnlyPayload_def Let_def split: if_splits) blast+

lemma unrecognizedLink_ltHash:
  "unrecognizedLink (knownFormats @ [''lt:hash mainnet'', ''lt:hash testnet''])
     ''Seems like hash, but not of length 64. Probably missing letters'' =
   ''Coudn't recognize such link, tried all formats: ton.cx, tonviewer, tonscan, toncoin.org, dton, lt:hash mainnet, lt:hash testnet. Got strange error: Seems like hash, but not of length 64. Probably missing letters''"
  by (simp add: unrecognizedLink_def knownFormats_def)

lemma fallbackFormats_ltHash_only:
  assumes "\<not> endsWith txLink ''=''" and "length txLink \<noteq> 64"
  shows "snd (fallbackFormats E txLink forcedTestnet) = snd (tryLtHash E txLink forcedTestnet knownFormats)"
    and "fst (tryLtHash E txLink forcedTestnet knownFormats) = Inl (m, tried) \<Longrightarrow>
         fst (fallbackFormats E txLink forcedTestnet) =
           Inl (unrecognizedLink tried ''Seems like hash, but not of length 64. Probably missing letters'')"
proof -
  show "snd (fallbackFormats E txLink forcedTestnet) = snd (tryLtHash E txLink forcedTestnet knownFormats)"
    by (cases "tryLtHash E txLink forcedTestnet knownFormats")
       (auto simp: fallbackFormats_def tryBareHash_wrong_length [OF assms] split: sum.splits)
  show "fst (tryLtHash E txLink forcedTestnet knownFormats) = Inl (m, tried) \<Longrightarrow>
         fst (fallbackFormats E txLink forcedTestnet) =
           Inl (unrecognizedLink tried ''Seems like hash, but not of length 64. Probably missing letters'')"
    by (cases "tryLtHash E txLink forcedTestnet knownFormats")
       (auto simp: fallbackFormats_def tryBareHash_wrong_length [OF assms] split: sum.splits)
qed

text \<open>
  Claim C3, as the code has it, for every reference that gives a hash and not the whole
  triple, resolved without forcing testnet.

  A reference that is none of the explorer shapes (an \<^verbatim>\<open>lt:hash\<close> pair or a bare hash):
  every request to the testnet index comes directly after a request for the same hash
  to the mainnet index and a wait for the rate limiter, and it is made only when the
  mainnet index did not answer with a transaction, that is when it returned none or
  when its request failed.

  A bare hash (no colon; 64 characters, after the conversion from base64 when it ends
  in \<^verbatim>\<open>=\<close>): the calls are the rate limiter, the mainnet index, and, unless that
  answered with a transaction, the rate limiter and the testnet index; nothing else.
  When both indexes return no transaction the call fails with the error that lists the
  five link formats and both attempts.

  An \<^verbatim>\<open>lt:hash\<close> pair whose first part is a number: the calls start with the mainnet
  index for the second part (with no wait before it) and, unless that answered with a
  transaction, the rate limiter and the testnet index. When the reference is not taken
  for a bare hash afterwards (it does not end in \<^verbatim>\<open>=\<close> and is not 64 characters long)
  these are all the calls, and when both indexes return no transaction the call fails
  with the error that lists the five link formats, both attempts and the complaint
  about the length.

  An explorer link that carries a hash only (\<^verbatim>\<open>tonviewer\<close>, \<^verbatim>\<open>tonscan\<close>, \<^verbatim>\<open>dton\<close>): there
  is one request and no retry, to the testnet index when the link contains
  \<^verbatim>\<open>testnet.\<close> and to the mainnet index otherwise; when it returns no transaction the
  call fails with a TypeError that lists no format.
\<close>

theorem linkToTx_hash_lookup_order:
  assumes "forcedTestnet \<noteq> Some True"
  shows "(\<not> isExplorerLink txLink \<longrightarrow>
            testnetAfterMainnet (snd (linkToTx E txLink forcedTestnet))
          \<and> (\<forall>h. FetchTransactions h True \<in> set (snd (linkToTx E txLink forcedTestnet)) \<longrightarrow>
                (\<forall>t ts. toncenter E False h \<noteq> Inr (t # ts))))
       \<and> (\<forall>h. CHR '':'' \<notin> set txLink
              \<and> h = (if endsWith txLink ''='' then toHex (bufferFromBase64 E txLink) else txLink)
              \<and> length h = 64 \<longrightarrow>
            snd (linkToTx E txLink forcedTestnet) = WaitForRateLimit # lookupCalls E h
          \<and> (toncenter E False h = Inr [] \<and> toncenter E True h = Inr [] \<longrightarrow>
               fst (linkToTx E txLink forcedTestnet) =
                 Inl ''Coudn't recognize such link, tried all formats: ton.cx, tonviewer, tonscan, toncoin.org, dton, bare hash mainnet, bare hash testnet. ''))
       \<and> (\<forall>ltStr hashStr others. \<not> isExplorerLink txLink
              \<and> splitStr txLink '':'' = ltStr # hashStr # others \<and> BigInt ltStr \<noteq> None \<longrightarrow>
            prefix (lookupCalls E hashStr) (snd (linkToTx E txLink forcedTestnet))
          \<and> (\<not> endsWith txLink ''='' \<and> length txLink \<noteq> 64 \<longrightarrow>
               snd (linkToTx E txLink forcedTestnet) = lookupCalls E hashStr
             \<and> (toncenter E False hashStr = Inr [] \<and> toncenter E True hashStr = Inr [] \<longrightarrow>
                  fst (linkToTx E txLink forcedTestnet) =
                    Inl ''Coudn't recognize such link, tried all formats: ton.cx, tonviewer, tonscan, toncoin.org, dton, lt:hash mainnet, lt:hash testnet. Got strange error: Seems like hash, but not of length 64. Probably missing letters'')))
       \<and> (\<forall>h tn. hashOnlyPayload txLink = Some (h, tn) \<longrightarrow>
            snd (linkToTx E txLink forcedTestnet) = [FetchTransactions h tn]
          \<and> (toncenter E tn h = Inr [] \<longrightarrow>
               fst (linkToTx E txLink forcedTestnet) =
                 Inl ''Cannot read properties of undefined (reading 'account')''))"
proof (intro conjI allI impI)
  assume ne: "\<not> isExplorerLink txLink"
  obtain c0 c1 where s0: "snd (fallbackFormats E txLink forcedTestnet) = c0 @ c1"
    and c0: "c0 = [] \<or> (\<exists>h. c0 = lookupCalls E h)"
    and c1: "c1 = [] \<or> (\<exists>h. c1 = WaitForRateLimit # lookupCalls E h)"
    using fallbackFormats_shape [OF assms, of E txLink] by blast
  have s: "snd (linkToTx E txLink forcedTestnet) = c0 @ c1"
    by (simp only: linkToTx_no_explorer [OF ne] s0)
  show "testnetAfterMainnet (snd (linkToTx E txLink forcedTestnet))"
    unfolding s by (rule testnetAfterMainnet_shape [OF c0 c1])
  fix h t ts
  assume "FetchTransactions h True \<in> set (snd (linkToTx E txLink forcedTestnet))"
  then have "FetchTransactions h True \<in> set (c0 @ c1)" by (simp only: s)
  from testnet_in_shape [OF c0 c1 this] show "toncenter E False h \<noteq> Inr (t # ts)" by blast
next
  fix h
  assume a: "CHR '':'' \<notin> set txLink
      \<and> h = (if endsWith txLink ''='' then toHex (bufferFromBase64 E txLink) else txLink)
      \<and> length h = 64"
  then have colon: "CHR '':'' \<notin> set txLink"
    and h: "h = (if endsWith txLink ''='' then toHex (bufferFromBase64 E txLink) else txLink)"
    and len: "length h = 64"
    by blast+
  show "snd (linkToTx E txLink forcedTestnet) = WaitForRateLimit # lookupCalls E h"
    by (rule linkToTx_bare_hash_calls [OF colon assms h len])
  assume z: "toncenter E False h = Inr [] \<and> toncenter E True h = Inr []"
  obtain calls where t: "tryBareHash E txLink forcedTestnet knownFormats =
      (Inl (''nope'', knownFormats @ [''bare hash mainnet'', ''bare hash testnet'']), calls)"
    using tryBareHash_both_empty [OF h len assms, of knownFormats] z
    by (cases "tryBareHash E txLink forcedTestnet knownFormats") auto
  show "fst (linkToTx E txLink forcedTestnet) =
      Inl ''Coudn't recognize such link, tried all formats: ton.cx, tonviewer, tonscan, toncoin.org, dton, bare hash mainnet, bare hash testnet. ''"
    unfolding linkToTx_no_colon [OF colon] fallbackFormats_no_colon [OF colon] t
    by (simp only: prod.case sum.case fst_conv unrecognizedLink_both)
next
  fix ltStr hashStr others
  assume a: "\<not> isExplorerLink txLink
      \<and> splitStr txLink '':'' = ltStr # hashStr # others \<and> BigInt ltStr \<noteq> None"
  then have ne: "\<not> isExplorerLink txLink"
    and parts: "splitStr txLink '':'' = ltStr # hashStr # others"
    and num: "BigInt ltStr \<noteq> None"
    by blast+
  note first = tryLtHash_unforced_calls [OF assms parts num, of E knownFormats]
  show "prefix (lookupCalls E hashStr) (snd (linkToTx E txLink forcedTestnet))"
    using fallbackFormats_calls [of E txLink forcedTestnet]
    unfolding linkToTx_no_explorer [OF ne] first
    by auto
  assume b: "\<not> endsWith txLink ''='' \<and> length txLink \<noteq> 64"
  then have ne64: "\<not> endsWith txLink ''=''" "length txLink \<noteq> 64" by blast+
  show "snd (linkToTx E txLink forcedTestnet) = lookupCalls E hashStr"
    unfolding linkToTx_no_explorer [OF ne] fallbackFormats_ltHash_only(1) [OF ne64]
    by (rule first)
  assume z: "toncenter E False hashStr = Inr [] \<and> toncenter E True hashStr = Inr []"
  then have z1: "toncenter E False hashStr = Inr []" and z2: "toncenter E True hashStr = Inr []"
    by blast+
  show "fst (linkToTx E txLink forcedTestnet) =
      Inl ''Coudn't recognize such link, tried all formats: ton.cx, tonviewer, tonscan, toncoin.org, dton, lt:hash mainnet, lt:hash testnet. Got strange error: Seems like hash, but not of length 64. Probably missing letters''"
    unfolding linkToTx_no_explorer [OF ne]
      fallbackFormats_ltHash_only(2) [OF ne64 tryLtHash_both_empty [OF assms parts num z1 z2]]
    by (simp only: unrecognizedLink_ltHash)
next
  fix h tn
  assume p: "hashOnlyPayload txLink = Some (h, tn)"
  from linkToTx_hashOnlyPayload [OF assms p, of E]
  obtain bytes where l: "linkToTx E txLink forcedTestnet = hashOnlyLink E h tn bytes" by blast
  show "snd (linkToTx E txLink forcedTestnet) = [FetchTransactions h tn]"
    unfolding l by (rule hashOnlyLink_calls)
  assume "toncenter E tn h = Inr []"
  from hashOnlyLink_empty [OF this, of bytes]
  show "fst (linkToTx E txLink forcedTestnet) =
      Inl ''Cannot read properties of undefined (reading 'account')''"
    unfolding l by (simp add: undefinedProperty_def)
qed

text \<open>The theorem at a bare hash, at an \<^verbatim>\<open>lt:hash\<close> pair and at two explorer links, with
  the index that finds nothing, the one whose mainnet answers and the one whose mainnet
  request fails.\<close>

theorem linkToTx_hash_lookup_order_witness:
  "snd (linkToTx emptyIndex ''3e5f49798de239da5d8f80b4dc300204d37613e4203a3f7b877c04a88c81856b'' None) =
     [WaitForRateLimit, FetchTransactions ''3e5f49798de239da5d8f80b4dc300204d37613e4203a3f7b877c04a88c81856b'' False, WaitForRateLimit, FetchTransactions ''3e5f49798de239da5d8f80b4dc300204d37613e4203a3f7b877c04a88c81856b'' True]
   \<and> fst (linkToTx emptyIndex ''3e5f49798de239da5d8f80b4dc300204d37613e4203a3f7b877c04a88c81856b'' None) = Inl ''Coudn't recognize such link, tried all formats: ton.cx, tonviewer, tonscan, toncoin.org, dton, bare hash mainnet, bare hash testnet. ''
   \<and> snd (linkToTx mainnetOnly ''3e5f49798de239da5d8f80b4dc300204d37613e4203a3f7b877c04a88c81856b'' None) = [WaitForRateLimit, FetchTransactions ''3e5f49798de239da5d8f80b4dc300204d37613e4203a3f7b877c04a88c81856b'' False]
   \<and> testnetAfterMainnet (snd (linkToTx mainnetDown ''3e5f49798de239da5d8f80b4dc300204d37613e4203a3f7b877c04a88c81856b'' None))
   \<and> snd (linkToTx emptyIndex ''47670702000009:3e5f49798de239da5d8f80b4dc300204d37613e4203a3f7b877c04a88c81856b'' None) =
     [FetchTransactions ''3e5f49798de239da5d8f80b4dc300204d37613e4203a3f7b877c04a88c81856b'' False, WaitForRateLimit, FetchTransactions ''3e5f49798de239da5d8f80b4dc300204d37613e4203a3f7b877c04a88c81856b'' True]
   \<and> fst (linkToTx emptyIndex ''47670702000009:3e5f49798de239da5d8f80b4dc300204d37613e4203a3f7b877c04a88c81856b'' None) = Inl ''Coudn't recognize such link, tried all formats: ton.cx, tonviewer, tonscan, toncoin.org, dton, lt:hash mainnet, lt:hash testnet. Got strange error: Seems like hash, but not of length 64. Probably missing letters''
   \<and> snd (linkToTx mainnetOnly ''47670702000009:3e5f49798de239da5d8f80b4dc300204d37613e4203a3f7b877c04a88c81856b'' None) =
     [FetchTransactions ''3e5f49798de239da5d8f80b4dc300204d37613e4203a3f7b877c04a88c81856b'' False]
   \<and> snd (linkToTx mainnetOnly ''https://tonviewer.com/transaction/3e5f49798de239da5d8f80b4dc300204d37613e4203a3f7b877c04a88c81856b'' None) =
     [FetchTransactions ''3e5f49798de239da5d8f80b4dc300204d37613e4203a3f7b877c04a88c81856b'' False]
   \<and> snd (linkToTx emptyIndex ''https://testnet.tonscan.org/tx/Pl9JeY3iOdpdj4C03DACBNN2E+QgOj97h3wEqIyBhWs='' None) =
     [FetchTransactions ''Pl9JeY3iOdpdj4C03DACBNN2E+QgOj97h3wEqIyBhWs='' True]
   \<and> fst (linkToTx emptyIndex ''https://testnet.tonscan.org/tx/Pl9JeY3iOdpdj4C03DACBNN2E+QgOj97h3wEqIyBhWs='' None) =
     Inl ''Cannot read properties of undefined (reading 'account')''"
proof -
  let ?h = "''3e5f49798de239da5d8f80b4dc300204d37613e4203a3f7b877c04a88c81856b''"
  let ?p = "''47670702000009:3e5f49798de239da5d8f80b4dc300204d37613e4203a3f7b877c04a88c81856b''"
  let ?v = "''https://tonviewer.com/transaction/3e5f49798de239da5d8f80b4dc300204d37613e4203a3f7b877c04a88c81856b''"
  let ?s = "''https://testnet.tonscan.org/tx/Pl9JeY3iOdpdj4C03DACBNN2E+QgOj97h3wEqIyBhWs=''"
  let ?b = "''Pl9JeY3iOdpdj4C03DACBNN2E+QgOj97h3wEqIyBhWs=''"
  have hint: "(None :: bool option) \<noteq> Some True" by simp
  have bare: "CHR '':'' \<notin> set ?h \<and> ?h = (if endsWith ?h ''='' then toHex (bufferFromBase64 E ?h) else ?h)
      \<and> length ?h = 64" for E :: "string resolverEnv"
    by (simp add: endsWith_def)
  have ne_h: "\<not> isExplorerLink ?h"
    by (simp add: isExplorerLink_def explorerPrefixes_def startsWith_def)
  have ne_p: "\<not> isExplorerLink ?p"
    by (simp add: isExplorerLink_def explorerPrefixes_def startsWith_def)
  have parts: "splitStr ?p '':'' = ''47670702000009'' # ?h # []" by code_simp
  have num: "BigInt ''47670702000009'' \<noteq> None"
    by (simp add: BigInt_def trim_def isSpace_def startsWith_def nonEmptyDigits_def digitValue_def)
  have pair: "\<not> isExplorerLink ?p \<and> splitStr ?p '':'' = ''47670702000009'' # ?h # []
      \<and> BigInt ''47670702000009'' \<noteq> None"
    using ne_p parts num by blast
  have long: "\<not> endsWith ?p ''='' \<and> length ?p \<noteq> 64" by (simp add: endsWith_def)
  have pv: "hashOnlyPayload ?v = Some (?h, False)" by code_simp
  have ps: "hashOnlyPayload ?s = Some (?b, True)" by code_simp
  have e0: "toncenter emptyIndex tn x = Inr []" for tn x by (simp add: emptyIndex_def)
  have le: "lookupCalls emptyIndex x = [FetchTransactions x False, WaitForRateLimit, FetchTransactions x True]" for x
    by (simp add: lookupCalls_def emptyIndex_def)
  have lm: "lookupCalls mainnetOnly x = [FetchTransactions x False]" for x
    by (simp add: lookupCalls_def mainnetOnly_def emptyIndex_def)
  note eh = linkToTx_hash_lookup_order [OF hint, of ?h emptyIndex]
  note mh = linkToTx_hash_lookup_order [OF hint, of ?h mainnetOnly]
  note dh = linkToTx_hash_lookup_order [OF hint, of ?h mainnetDown]
  note ep = linkToTx_hash_lookup_order [OF hint, of ?p emptyIndex]
  note mp = linkToTx_hash_lookup_order [OF hint, of ?p mainnetOnly]
  note mv = linkToTx_hash_lookup_order [OF hint, of ?v mainnetOnly]
  note es = linkToTx_hash_lookup_order [OF hint, of ?s emptyIndex]
  have 1: "snd (linkToTx emptyIndex ?h None) = WaitForRateLimit # lookupCalls emptyIndex ?h
      \<and> fst (linkToTx emptyIndex ?h None) = Inl ''Coudn't recognize such link, tried all formats: ton.cx, tonviewer, tonscan, toncoin.org, dton, bare hash mainnet, bare hash testnet. ''"
    using eh [THEN conjunct2, THEN conjunct1, rule_format, OF bare] e0 by blast
  have 2: "snd (linkToTx mainnetOnly ?h None) = WaitForRateLimit # lookupCalls mainnetOnly ?h"
    using mh [THEN conjunct2, THEN conjunct1, rule_format, OF bare] by blast
  have 3: "testnetAfterMainnet (snd (linkToTx mainnetDown ?h None))"
    using dh [THEN conjunct1, rule_format, OF ne_h] by blast
  have 4: "snd (linkToTx emptyIndex ?p None) = lookupCalls emptyIndex ?h
      \<and> fst (linkToTx emptyIndex ?p None) = Inl ''Coudn't recognize such link, tried all formats: ton.cx, tonviewer, tonscan, toncoin.org, dton, lt:hash mainnet, lt:hash testnet. Got strange error: Seems like hash, but not of length 64. Probably missing letters''"
    using ep [THEN conjunct2, THEN conjunct2, THEN conjunct1, rule_format, OF pair] long e0 by blast
  have 5: "snd (linkToTx mainnetOnly ?p None) = lookupCalls mainnetOnly ?h"
    using mp [THEN conjunct2, THEN conjunct2, THEN conjunct1, rule_format, OF pair] long by blast
  have 6: "snd (linkToTx mainnetOnly ?v None) = [FetchTransactions ?h False]"
    using mv [THEN conjunct2, THEN conjunct2, THEN conjunct2, rule_format, OF pv] by blast
  have 7: "snd (linkToTx emptyIndex ?s None) = [FetchTransactions ?b True]
      \<and> fst (linkToTx emptyIndex ?s None) = Inl ''Cannot read properties of undefined (reading 'account')''"
    using es [THEN conjunct2, THEN conjunct2, THEN conjunct2, rule_format, OF ps] e0 by blast
  from 1 2 3 4 5 6 7 show ?thesis by (simp only: le lm)
qed

text \<open>
  Claim C3 as stated fails in three places. The testnet index is not asked only after
  the mainnet query has returned zero results: when the mainnet request for a bare hash
  fails with an error, the testnet index is asked all the same. The error that lists
  the formats is not what every hash-only reference fails with when both networks
  return no transaction: an explorer link makes one request to the mainnet index, none
  to the testnet index, and fails with a TypeError. And with no network forced the
  testnet index is asked with no mainnet attempt before it when the explorer link
  contains \<^verbatim>\<open>testnet.\<close>.
\<close>

theorem linkToTx_lookup_order_counterexample:
  "toncenter mainnetDown False ''3e5f49798de239da5d8f80b4dc300204d37613e4203a3f7b877c04a88c81856b'' = Inl ''Network Error''
   \<and> snd (linkToTx mainnetDown ''3e5f49798de239da5d8f80b4dc300204d37613e4203a3f7b877c04a88c81856b'' None) =
       [WaitForRateLimit, FetchTransactions ''3e5f49798de239da5d8f80b4dc300204d37613e4203a3f7b877c04a88c81856b'' False, WaitForRateLimit, FetchTransactions ''3e5f49798de239da5d8f80b4dc300204d37613e4203a3f7b877c04a88c81856b'' True]
   \<and> toncenter emptyIndex False ''3e5f49798de239da5d8f80b4dc300204d37613e4203a3f7b877c04a88c81856b'' = Inr []
   \<and> toncenter emptyIndex True ''3e5f49798de239da5d8f80b4dc300204d37613e4203a3f7b877c04a88c81856b'' = Inr []
   \<and> linkToTx emptyIndex ''https://tonviewer.com/transaction/3e5f49798de239da5d8f80b4dc300204d37613e4203a3f7b877c04a88c81856b'' None =
       (Inl ''Cannot read properties of undefined (reading 'account')'',
        [FetchTransactions ''3e5f49798de239da5d8f80b4dc300204d37613e4203a3f7b877c04a88c81856b'' False])
   \<and> snd (linkToTx emptyIndex ''https://testnet.tonviewer.com/transaction/3e5f49798de239da5d8f80b4dc300204d37613e4203a3f7b877c04a88c81856b'' None) =
       [FetchTransactions ''3e5f49798de239da5d8f80b4dc300204d37613e4203a3f7b877c04a88c81856b'' True]"
proof -
  let ?h = "''3e5f49798de239da5d8f80b4dc300204d37613e4203a3f7b877c04a88c81856b''"
  have down: "toncenter mainnetDown False ?h = Inl ''Network Error''"
    by (simp add: mainnetDown_def emptyIndex_def)
  have calls: "lookupCalls mainnetDown ?h =
      [FetchTransactions ?h False, WaitForRateLimit, FetchTransactions ?h True]"
    by (simp add: lookupCalls_def down)
  have "snd (linkToTx mainnetDown ?h None) = WaitForRateLimit # lookupCalls mainnetDown ?h"
    by (rule linkToTx_bare_hash_calls) (simp_all add: endsWith_def)
  with calls have retry: "snd (linkToTx mainnetDown ?h None) =
      [WaitForRateLimit, FetchTransactions ?h False, WaitForRateLimit, FetchTransactions ?h True]"
    by simp
  have none: "toncenter emptyIndex False ?h = Inr []" "toncenter emptyIndex True ?h = Inr []"
    by (simp_all add: emptyIndex_def)
  have once: "linkToTx emptyIndex ''https://tonviewer.com/transaction/3e5f49798de239da5d8f80b4dc300204d37613e4203a3f7b877c04a88c81856b'' None =
       (Inl ''Cannot read properties of undefined (reading 'account')'', [FetchTransactions ?h False])"
    by code_simp
  have marker: "snd (linkToTx emptyIndex ''https://testnet.tonviewer.com/transaction/3e5f49798de239da5d8f80b4dc300204d37613e4203a3f7b877c04a88c81856b'' None) =
       [FetchTransactions ?h True]"
    by code_simp
  from down retry none once marker show ?thesis by simp
qed


section \<open>Properties of the link serialisation\<close>

subsection \<open>The encodings are injective\<close>

lemma digitChar_mem: "d < 16 \<Longrightarrow> digitChar d \<in> set ''0123456789abcdef''"
  unfolding digitChar_def by (rule nth_mem) simp

lemma digitChar_inj: "d < 16 \<Longrightarrow> e < 16 \<Longrightarrow> digitChar d = digitChar e \<longleftrightarrow> d = e"
proof -
  have "distinct ''0123456789abcdef''" by simp
  then show "d < 16 \<Longrightarrow> e < 16 \<Longrightarrow> digitChar d = digitChar e \<longleftrightarrow> d = e"
    unfolding digitChar_def by (simp add: nth_eq_iff_index_eq)
qed

lemma base64Char_mem:
  "n < 64 \<Longrightarrow> base64Char n \<in> set ''ABCDEFGHIJKLMNOPQRSTUVWXYZabcdefghijklmnopqrstuvwxyz0123456789+/''"
  unfolding base64Char_def by (rule nth_mem) simp

lemma base64Char_inj: "m < 64 \<Longrightarrow> n < 64 \<Longrightarrow> base64Char m = base64Char n \<longleftrightarrow> m = n"
proof -
  have "distinct ''ABCDEFGHIJKLMNOPQRSTUVWXYZabcdefghijklmnopqrstuvwxyz0123456789+/''" by simp
  then show "m < 64 \<Longrightarrow> n < 64 \<Longrightarrow> base64Char m = base64Char n \<longleftrightarrow> m = n"
    unfolding base64Char_def by (simp add: nth_eq_iff_index_eq)
qed

lemma base64Char_not_pad: "n < 64 \<Longrightarrow> base64Char n \<noteq> CHR ''=''"
  using base64Char_mem [of n] by auto

lemma base64Char_not_colon: "n < 64 \<Longrightarrow> base64Char n \<noteq> CHR '':''"
  using base64Char_mem [of n] by auto

lemma unat_byte: "unat (b :: byte) < 256"
  using unsigned_less [of b, where ?'a = nat] by simp

lemma toHex_no_equals: "CHR ''='' \<notin> set (toHex bs)"
proof -
  have nd: "CHR ''='' \<noteq> digitChar d" if "d < 16" for d
    using digitChar_mem [OF that] by auto
  have "CHR ''='' \<noteq> digitChar (unat b div 16)" "CHR ''='' \<noteq> digitChar (unat b mod 16)" for b :: byte
    using unat_byte [of b] by (simp_all add: nd less_mult_imp_div_less)
  then show ?thesis by (auto simp: toHex_def)
qed

lemma byte_digits_eq:
  fixes a b :: byte
  assumes "unat a div 16 = unat b div 16" and "unat a mod 16 = unat b mod 16"
  shows "a = b"
proof -
  have "unat a = unat b" using assms by (metis div_mult_mod_eq)
  then show ?thesis by (simp add: word_unat_eq_iff)
qed

lemma toHex_inj: "toHex xs = toHex ys \<Longrightarrow> xs = ys"
proof (induction xs arbitrary: ys)
  case Nil
  then show ?case by (cases ys) (simp_all add: toHex_def)
next
  case (Cons x xs)
  then obtain y ys' where ys: "ys = y # ys'" by (cases ys) (simp_all add: toHex_def)
  from Cons.prems have hd: "digitChar (unat x div 16) = digitChar (unat y div 16)"
      "digitChar (unat x mod 16) = digitChar (unat y mod 16)"
    and tl: "toHex xs = toHex ys'"
    by (simp_all add: ys toHex_def)
  have "unat x div 16 = unat y div 16" "unat x mod 16 = unat y mod 16"
    using hd unat_byte [of x] unat_byte [of y]
    by (simp_all add: digitChar_inj less_mult_imp_div_less)
  then have "x = y" by (rule byte_digits_eq)
  with Cons.IH [OF tl] ys show ?case by simp
qed

lemma mult_add_unique:
  fixes x y x' y' n :: nat
  assumes "y < n" and "y' < n" and "x * n + y = x' * n + y'"
  shows "x = x' \<and> y = y'"
proof -
  have "(x * n + y) div n = x" "(x' * n + y') div n = x'" using assms(1,2) by simp_all
  with assms(3) have "x = x'" by simp
  with assms(3) show ?thesis by simp
qed

lemma div_mod_unique:
  fixes a a' n :: nat
  assumes "a div n = a' div n" and "a mod n = a' mod n"
  shows "a = a'"
proof -
  have "a = a div n * n + a mod n" by simp
  also have "\<dots> = a' div n * n + a' mod n" by (simp only: assms)
  also have "\<dots> = a'" by simp
  finally show ?thesis .
qed

lemma sextets_eq:
  fixes a b c a' b' c' :: nat
  assumes "b < 256" "c < 256" "b' < 256" "c' < 256"
    and e1: "a div 4 = a' div 4"
    and e2: "(a mod 4) * 16 + b div 16 = (a' mod 4) * 16 + b' div 16"
    and e3: "(b mod 16) * 4 + c div 64 = (b' mod 16) * 4 + c' div 64"
    and e4: "c mod 64 = c' mod 64"
  shows "a = a' \<and> b = b' \<and> c = c'"
proof -
  have f: "b div 16 < 16" "b' div 16 < 16" "c div 64 < 4" "c' div 64 < 4"
    using assms(1-4) by (simp_all add: less_mult_imp_div_less)
  have g: "a mod 4 = a' mod 4 \<and> b div 16 = b' div 16"
    by (rule mult_add_unique [OF f(1) f(2) e2])
  have h: "b mod 16 = b' mod 16 \<and> c div 64 = c' div 64"
    by (rule mult_add_unique [OF f(3) f(4) e3])
  have "a = a'" by (rule div_mod_unique [OF e1]) (simp only: g)
  moreover have "b = b'" by (rule div_mod_unique [of b 16 b']) (simp_all only: g h)
  moreover have "c = c'" by (rule div_mod_unique [of c 64 c']) (simp_all only: h e4)
  ultimately show ?thesis by blast
qed

lemma pair_eq:
  fixes a b a' b' :: nat
  assumes "b < 256" "b' < 256"
    and e1: "a div 4 = a' div 4"
    and e2: "(a mod 4) * 16 + b div 16 = (a' mod 4) * 16 + b' div 16"
    and e3: "(b mod 16) * 4 = (b' mod 16) * 4"
  shows "a = a' \<and> b = b'"
proof -
  have f: "b div 16 < 16" "b' div 16 < 16"
    using assms(1,2) by (simp_all add: less_mult_imp_div_less)
  have g: "a mod 4 = a' mod 4 \<and> b div 16 = b' div 16"
    by (rule mult_add_unique [OF f(1) f(2) e2])
  from e3 have h: "b mod 16 = b' mod 16" by simp
  have "a = a'" by (rule div_mod_unique [OF e1]) (simp only: g)
  moreover have "b = b'" by (rule div_mod_unique [of b 16 b']) (simp_all only: g h)
  ultimately show ?thesis by blast
qed

lemma single_eq:
  fixes a a' :: nat
  assumes e1: "a div 4 = a' div 4" and e2: "(a mod 4) * 16 = (a' mod 4) * 16"
  shows "a = a'"
proof -
  from e2 have "a mod 4 = a' mod 4" by simp
  with e1 show ?thesis by (rule div_mod_unique)
qed

lemma small_sum_bound:
  fixes x y :: nat
  shows "x < 4 \<Longrightarrow> y < 16 \<Longrightarrow> x * 16 + y < 64"
    and "y < 16 \<Longrightarrow> x < 4 \<Longrightarrow> y * 4 + x < 64"
    and "x < 4 \<Longrightarrow> x * 16 < 64"
    and "y < 16 \<Longrightarrow> y * 4 < 64"
  by simp_all

lemma sextets_bound:
  fixes a b c :: nat
  assumes "a < 256" "b < 256" "c < 256"
  shows "a div 4 < 64" "(a mod 4) * 16 + b div 16 < 64" "(b mod 16) * 4 + c div 64 < 64"
    "c mod 64 < 64" "(a mod 4) * 16 < 64" "(b mod 16) * 4 < 64"
proof -
  have f: "a mod 4 < 4" "b mod 16 < 16" "b div 16 < 16" "c div 64 < 4"
    using assms by (simp_all add: less_mult_imp_div_less)
  show "a div 4 < 64" using assms by (simp add: less_mult_imp_div_less)
  show "(a mod 4) * 16 + b div 16 < 64" using f by (intro small_sum_bound)
  show "(b mod 16) * 4 + c div 64 < 64" using f by (intro small_sum_bound)
  show "c mod 64 < 64" by simp
  show "(a mod 4) * 16 < 64" using f by (intro small_sum_bound)
  show "(b mod 16) * 4 < 64" using f by (intro small_sum_bound)
qed

lemma base64Char_injD: "m < 64 \<Longrightarrow> n < 64 \<Longrightarrow> base64Char m = base64Char n \<Longrightarrow> m = n"
  by (simp only: base64Char_inj)

lemma base64Nat_empty: "base64Nat ys = [] \<Longrightarrow> ys = []"
  by (cases ys rule: base64Nat.cases) simp_all

lemma base64Nat_single:
  assumes "a < 256" and "list_all (\<lambda>y. y < 256) ys" and "base64Nat [a] = base64Nat ys"
  shows "[a] = ys"
proof (cases ys rule: base64Nat.cases)
  case 1
  with assms(3) show ?thesis by simp
next
  case (2 a')
  with assms(2) have b: "a' < 256" by simp
  from 2 assms(3) have ch: "base64Char (a div 4) = base64Char (a' div 4)"
      "base64Char ((a mod 4) * 16) = base64Char ((a' mod 4) * 16)"
    by simp_all
  have "a div 4 = a' div 4"
    by (rule base64Char_injD [OF sextets_bound(1) sextets_bound(1) ch(1)]) (rule assms(1) b)+
  moreover have "(a mod 4) * 16 = (a' mod 4) * 16"
    by (rule base64Char_injD [OF sextets_bound(5) sextets_bound(5) ch(2)]) (rule assms(1) b)+
  ultimately have "a = a'" by (rule single_eq)
  with 2 show ?thesis by simp
next
  case (3 a' b')
  with assms(2) have b: "b' < 256" by simp
  from 3 assms(3) have "base64Char ((b' mod 16) * 4) = CHR ''=''" by simp
  with base64Char_not_pad [OF sextets_bound(6) [of b' b' b']] b show ?thesis by simp
next
  case (4 a' b' c' rest')
  with assms(2) have b: "b' < 256" "c' < 256" by simp_all
  from 4 assms(3) have "base64Char ((b' mod 16) * 4 + c' div 64) = CHR ''=''" by simp
  with base64Char_not_pad [OF sextets_bound(3) [of b' b' c']] b show ?thesis by simp
qed

lemma base64Nat_pair:
  assumes "a < 256" and "b < 256" and "list_all (\<lambda>y. y < 256) ys"
    and "base64Nat [a, b] = base64Nat ys"
  shows "[a, b] = ys"
proof (cases ys rule: base64Nat.cases)
  case 1
  with assms(4) show ?thesis by simp
next
  case (2 a')
  with assms(3) have "[a'] = [a, b]"
    using assms(1,2,4) by (intro base64Nat_single) simp_all
  then show ?thesis by simp
next
  case (3 a' b')
  with assms(3) have p: "a' < 256" "b' < 256" by simp_all
  from 3 assms(4) have ch: "base64Char (a div 4) = base64Char (a' div 4)"
      "base64Char ((a mod 4) * 16 + b div 16) = base64Char ((a' mod 4) * 16 + b' div 16)"
      "base64Char ((b mod 16) * 4) = base64Char ((b' mod 16) * 4)"
    by simp_all
  have e1: "a div 4 = a' div 4"
    by (rule base64Char_injD [OF sextets_bound(1) sextets_bound(1) ch(1)]) (rule assms p)+
  have e2: "(a mod 4) * 16 + b div 16 = (a' mod 4) * 16 + b' div 16"
    by (rule base64Char_injD [OF sextets_bound(2) sextets_bound(2) ch(2)]) (rule assms p)+
  have e3: "(b mod 16) * 4 = (b' mod 16) * 4"
    by (rule base64Char_injD [OF sextets_bound(6) sextets_bound(6) ch(3)]) (rule assms p)+
  have "a = a' \<and> b = b'" by (rule pair_eq [OF assms(2) p(2) e1 e2 e3])
  with 3 show ?thesis by simp
next
  case (4 a' b' c' rest')
  with assms(3) have p: "c' < 256" by simp
  from 4 assms(4) have "base64Char (c' mod 64) = CHR ''=''" by simp
  with base64Char_not_pad [of "c' mod 64"] show ?thesis by simp
qed

lemma base64Nat_inj:
  assumes "list_all (\<lambda>x. x < 256) xs" and "list_all (\<lambda>y. y < 256) ys"
    and "base64Nat xs = base64Nat ys"
  shows "xs = ys"
  using assms
proof (induction xs arbitrary: ys rule: base64Nat.induct)
  case 1
  then show ?case using base64Nat_empty [of ys] by simp
next
  case (2 a)
  then show ?case by (intro base64Nat_single) simp_all
next
  case (3 a b)
  then show ?case by (intro base64Nat_pair) simp_all
next
  case (4 a b c rest)
  from "4.prems"(1) have q: "a < 256" "b < 256" "c < 256" "list_all (\<lambda>x. x < 256) rest"
    by simp_all
  show ?case
  proof (cases ys rule: base64Nat.cases)
    case 1
    with "4.prems"(3) show ?thesis by simp
  next
    case (2 a')
    have "[a'] = a # b # c # rest"
      using "4.prems" 2 by (intro base64Nat_single) simp_all
    then show ?thesis by simp
  next
    case (3 a' b')
    have "[a', b'] = a # b # c # rest"
      using "4.prems" 3 by (intro base64Nat_pair) simp_all
    then show ?thesis by simp
  next
    case ys: (4 a' b' c' rest')
    with "4.prems"(2) have p: "a' < 256" "b' < 256" "c' < 256" "list_all (\<lambda>y. y < 256) rest'"
      by simp_all
    from ys "4.prems"(3) have ch: "base64Char (a div 4) = base64Char (a' div 4)"
        "base64Char ((a mod 4) * 16 + b div 16) = base64Char ((a' mod 4) * 16 + b' div 16)"
        "base64Char ((b mod 16) * 4 + c div 64) = base64Char ((b' mod 16) * 4 + c' div 64)"
        "base64Char (c mod 64) = base64Char (c' mod 64)"
      and rest: "base64Nat rest = base64Nat rest'"
      by simp_all
    have e1: "a div 4 = a' div 4"
      by (rule base64Char_injD [OF sextets_bound(1) sextets_bound(1) ch(1)]) (rule q p)+
    have e2: "(a mod 4) * 16 + b div 16 = (a' mod 4) * 16 + b' div 16"
      by (rule base64Char_injD [OF sextets_bound(2) sextets_bound(2) ch(2)]) (rule q p)+
    have e3: "(b mod 16) * 4 + c div 64 = (b' mod 16) * 4 + c' div 64"
      by (rule base64Char_injD [OF sextets_bound(3) sextets_bound(3) ch(3)]) (rule q p)+
    have e4: "c mod 64 = c' mod 64"
      by (rule base64Char_injD [OF _ _ ch(4)]) simp_all
    have abc: "a = a' \<and> b = b' \<and> c = c'"
      by (rule sextets_eq [OF q(2) q(3) p(2) p(3) e1 e2 e3 e4])
    have "rest = rest'" by (rule "4.IH" [OF q(4) p(4) rest])
    with abc ys show ?thesis by simp
  qed
qed

lemma toBase64_inj: "toBase64 xs = toBase64 ys \<Longrightarrow> xs = ys"
proof -
  assume "toBase64 xs = toBase64 ys"
  moreover have "list_all (\<lambda>x. x < 256) (map unat zs)" for zs :: "byte list"
    by (simp add: list_all_iff unat_byte)
  ultimately have "map unat xs = map unat ys"
    unfolding toBase64_def by (intro base64Nat_inj)
  then show "xs = ys"
    by (simp add: list_eq_iff_nth_eq word_unat_eq_iff)
qed

lemma base64Nat_no_colon: "list_all (\<lambda>x. x < 256) xs \<Longrightarrow> CHR '':'' \<notin> set (base64Nat xs)"
proof (induction xs rule: base64Nat.induct)
  case 1
  then show ?case by simp
next
  case (2 a)
  then show ?case using sextets_bound [of a a a] by (simp add: base64Char_not_colon [symmetric] base64Char_not_colon[THEN not_sym])
next
  case (3 a b)
  then show ?case using sextets_bound [of a b b] by (simp add: base64Char_not_colon[THEN not_sym])
next
  case (4 a b c rest)
  then show ?case using sextets_bound [of a b c] by (simp add: base64Char_not_colon[THEN not_sym])
qed

lemma toBase64_no_colon: "CHR '':'' \<notin> set (toBase64 bs)"
  unfolding toBase64_def by (rule base64Nat_no_colon) (simp add: list_all_iff unat_byte)

lemma natToDecimal_no_colon: "CHR '':'' \<notin> set (natToDecimal n)"
proof (induction n rule: natToDecimal.induct)
  case (1 n)
  have d: "CHR '':'' \<noteq> digitChar k" if "k < 10" for k
    using digitChar_mem [of k] that by auto
  show ?case
  proof (cases "n < 10")
    case True
    then show ?thesis by (subst natToDecimal.simps) (simp add: d)
  next
    case False
    then show ?thesis using 1 by (subst natToDecimal.simps) (simp add: d)
  qed
qed

lemma bigintToString_no_colon: "CHR '':'' \<notin> set (bigintToString i)"
  by (simp add: bigintToString_def natToDecimal_no_colon)

subsection \<open>The links\<close>

lemma ex_hex: "toHex (hash exampleTx) = ''3e5f49798de239da5d8f80b4dc300204d37613e4203a3f7b877c04a88c81856b''"
  by (simp add: exampleTx_def toHex_def digitChar_def)

lemma ex_b64: "toBase64 (hash exampleTx) = ''Pl9JeY3iOdpdj4C03DACBNN2E+QgOj97h3wEqIyBhWs=''"
  by (simp add: exampleTx_def toBase64_def base64Char_def)

lemma ex_lt: "bigintToString (lt exampleTx) = ''47670702000009''"
  by (simp add: exampleTx_def bigintToString_def natToDecimal.simps digitChar_def)


lemma separator_split:
  assumes "c \<notin> set xs" and "c \<notin> set ys" and "xs @ c # r = ys @ c # r'"
  shows "xs = ys \<and> r = r'"
  using assms
proof (induction xs arbitrary: ys)
  case Nil
  then show ?case by (cases ys) auto
next
  case (Cons x xs)
  then show ?case by (cases ys) auto
qed

lemma colon_split:
  assumes "CHR '':'' \<notin> set xs" and "CHR '':'' \<notin> set ys"
    and "xs @ '':'' @ r = ys @ '':'' @ r'"
  shows "xs = ys \<and> r = r'"
  using separator_split [OF assms(1,2), of r r'] assms(3) by simp

lemma toncx_body_hash:
  assumes "bigintToString l1 @ '':'' @ toBase64 h1 @ '':'' @ a1
         = bigintToString l2 @ '':'' @ toBase64 h2 @ '':'' @ a2"
  shows "h1 = h2"
proof -
  have "toBase64 h1 @ '':'' @ a1 = toBase64 h2 @ '':'' @ a2"
    using colon_split [OF bigintToString_no_colon bigintToString_no_colon assms] by simp
  then have "toBase64 h1 = toBase64 h2"
    using colon_split [OF toBase64_no_colon toBase64_no_colon] by blast
  then show ?thesis by (rule toBase64_inj)
qed

lemma toncoin_body_hash:
  assumes "a1 @ ''&lt='' @ l1 @ ''&hash='' @ toHex h1 = a2 @ ''&lt='' @ l2 @ ''&hash='' @ toHex h2"
  shows "h1 = h2"
proof -
  define r1 where "r1 = ''hsah&'' @ rev l1 @ ''=tl&'' @ rev a1"
  define r2 where "r2 = ''hsah&'' @ rev l2 @ ''=tl&'' @ rev a2"
  have shape: "rev (a @ ''&lt='' @ l @ ''&hash='' @ toHex h)
      = rev (toHex h) @ CHR ''='' # (''hsah&'' @ rev l @ ''=tl&'' @ rev a)" for a l h
    by simp
  from assms have "rev (a1 @ ''&lt='' @ l1 @ ''&hash='' @ toHex h1)
      = rev (a2 @ ''&lt='' @ l2 @ ''&hash='' @ toHex h2)"
    by (rule arg_cong)
  then have e: "rev (toHex h1) @ CHR ''='' # r1 = rev (toHex h2) @ CHR ''='' # r2"
    unfolding shape r1_def r2_def .
  have n: "CHR ''='' \<notin> set (rev (toHex h))" for h
    by (simp add: toHex_no_equals)
  have "rev (toHex h1) = rev (toHex h2) \<and> r1 = r2"
    by (rule separator_split [OF n n e])
  then have "toHex h1 = toHex h2" by simp
  then show ?thesis by (rule toHex_inj)
qed

lemma toncx_hash:
  assumes "toncx (txToLinks f o1 t1) = toncx (txToLinks f o2 t2)"
  shows "hash o1 = hash o2"
proof (cases "t1 = t2")
  case True
  with assms show ?thesis
    by (simp add: txToLinks_def) (rule toncx_body_hash, simp)
next
  case False
  with assms show ?thesis
    by (cases t1; cases t2) (simp_all add: txToLinks_def networkPrefix_def)
qed

lemma tonviewer_hash:
  assumes "tonviewer (txToLinks f o1 t1) = tonviewer (txToLinks f o2 t2)"
  shows "hash o1 = hash o2"
proof (cases "t1 = t2")
  case True
  with assms show ?thesis
    by (simp add: txToLinks_def toHex_inj)
next
  case False
  with assms show ?thesis
    by (cases t1; cases t2) (simp_all add: txToLinks_def networkPrefix_def)
qed

lemma tonscan_hash:
  assumes "tonscan (txToLinks f o1 t1) = tonscan (txToLinks f o2 t2)"
  shows "hash o1 = hash o2"
proof (cases "t1 = t2")
  case True
  with assms show ?thesis
    by (simp add: txToLinks_def toBase64_inj)
next
  case False
  with assms show ?thesis
    by (cases t1; cases t2) (simp_all add: txToLinks_def networkPrefix_def)
qed

lemma toncoin_hash:
  assumes "toncoin (txToLinks f o1 t1) = toncoin (txToLinks f o2 t2)"
  shows "hash o1 = hash o2"
proof (cases "t1 = t2")
  case True
  with assms show ?thesis
    by (simp add: txToLinks_def) (rule toncoin_body_hash, simp)
next
  case False
  with assms show ?thesis
    by (cases t1; cases t2) (simp_all add: txToLinks_def)
qed

text \<open>
  Claim C1, as the code has it, for four of the five links. The \<^verbatim>\<open>ton.cx\<close> link holds
  the logical time, the hash in base64 and the address; the \<^verbatim>\<open>tonviewer\<close> link holds the
  hash in hexadecimal; the \<^verbatim>\<open>tonscan\<close> link holds the hash in base64; the
  \<^verbatim>\<open>explorer.toncoin.org\<close> link holds the address, the logical time and the hash in
  hexadecimal. For each of these four formats, two locators with different hashes never
  give the same link, whatever their other fields and network flags are. (The
  \<^verbatim>\<open>tonviewer\<close> and \<^verbatim>\<open>tonscan\<close> shapes have no place for an address. Nothing is said
  here of the \<^verbatim>\<open>dton.io\<close> link.)
\<close>

theorem txToLinks_embed_hash:
  "toncx (txToLinks f opts testnet) =
      ''https://'' @ networkPrefix testnet @ ''ton.cx/tx/'' @ bigintToString (lt opts)
        @ '':'' @ toBase64 (hash opts) @ '':'' @ f (addr opts)
   \<and> tonviewer (txToLinks f opts testnet) =
      ''https://'' @ networkPrefix testnet @ ''tonviewer.com/transaction/'' @ toHex (hash opts)
   \<and> tonscan (txToLinks f opts testnet) =
      ''https://'' @ networkPrefix testnet @ ''tonscan.org/tx/'' @ toBase64 (hash opts)
   \<and> toncoin (txToLinks f opts testnet) =
      ''https://'' @ (if testnet then ''test-'' else []) @ ''explorer.toncoin.org/transaction?account=''
        @ f (addr opts) @ ''&lt='' @ bigintToString (lt opts) @ ''&hash='' @ toHex (hash opts)
   \<and> (\<forall>opts' testnet'. hash opts \<noteq> hash opts' \<longrightarrow>
          toncx (txToLinks f opts testnet) \<noteq> toncx (txToLinks f opts' testnet')
        \<and> tonviewer (txToLinks f opts testnet) \<noteq> tonviewer (txToLinks f opts' testnet')
        \<and> tonscan (txToLinks f opts testnet) \<noteq> tonscan (txToLinks f opts' testnet')
        \<and> toncoin (txToLinks f opts testnet) \<noteq> toncoin (txToLinks f opts' testnet'))"
proof (intro conjI allI impI)
  fix opts' :: "'a BaseTxInfo" and testnet'
  assume d: "hash opts \<noteq> hash opts'"
  show "toncx (txToLinks f opts testnet) \<noteq> toncx (txToLinks f opts' testnet')"
    using d toncx_hash by blast
  show "tonviewer (txToLinks f opts testnet) \<noteq> tonviewer (txToLinks f opts' testnet')"
    using d tonviewer_hash by blast
  show "tonscan (txToLinks f opts testnet) \<noteq> tonscan (txToLinks f opts' testnet')"
    using d tonscan_hash by blast
  show "toncoin (txToLinks f opts testnet) \<noteq> toncoin (txToLinks f opts' testnet')"
    using d toncoin_hash by blast
qed (simp_all add: txToLinks_def)

text \<open>On the example transaction the four links are the ones of the comments in
  \<^verbatim>\<open>linkToTx\<close>, and they differ from those of the other locator.\<close>

theorem txToLinks_embed_hash_witness:
  "toncx (txToLinks (\<lambda>a. a) exampleTx False) =
      ''https://ton.cx/tx/47670702000009:Pl9JeY3iOdpdj4C03DACBNN2E+QgOj97h3wEqIyBhWs=:EQDa4VOnTYlLvDJ0gZjNYm5PXfSmmtL6Vs6A_CZEtXCNICq_''
   \<and> tonviewer (txToLinks (\<lambda>a. a) exampleTx False) =
      ''https://tonviewer.com/transaction/3e5f49798de239da5d8f80b4dc300204d37613e4203a3f7b877c04a88c81856b''
   \<and> tonscan (txToLinks (\<lambda>a. a) exampleTx False) =
      ''https://tonscan.org/tx/Pl9JeY3iOdpdj4C03DACBNN2E+QgOj97h3wEqIyBhWs=''
   \<and> toncoin (txToLinks (\<lambda>a. a) exampleTx False) =
      ''https://explorer.toncoin.org/transaction?account=EQDa4VOnTYlLvDJ0gZjNYm5PXfSmmtL6Vs6A_CZEtXCNICq_&lt=47670702000009&hash=3e5f49798de239da5d8f80b4dc300204d37613e4203a3f7b877c04a88c81856b''
   \<and> toncx (txToLinks (\<lambda>a. a) exampleTx False) \<noteq> toncx (txToLinks (\<lambda>a. a) otherTx True)
   \<and> tonviewer (txToLinks (\<lambda>a. a) exampleTx False) \<noteq> tonviewer (txToLinks (\<lambda>a. a) otherTx True)
   \<and> tonscan (txToLinks (\<lambda>a. a) exampleTx False) \<noteq> tonscan (txToLinks (\<lambda>a. a) otherTx True)
   \<and> toncoin (txToLinks (\<lambda>a. a) exampleTx False) \<noteq> toncoin (txToLinks (\<lambda>a. a) otherTx True)"
proof -
  have d: "hash exampleTx \<noteq> hash otherTx"
    by (simp add: exampleTx_def otherTx_def)
  have a: "addr exampleTx = ''EQDa4VOnTYlLvDJ0gZjNYm5PXfSmmtL6Vs6A_CZEtXCNICq_''"
    by (simp add: exampleTx_def)
  note t = txToLinks_embed_hash [of "\<lambda>a. a" exampleTx False]
  from t have 1: "toncx (txToLinks (\<lambda>a. a) exampleTx False) =
      ''https://ton.cx/tx/47670702000009:Pl9JeY3iOdpdj4C03DACBNN2E+QgOj97h3wEqIyBhWs=:EQDa4VOnTYlLvDJ0gZjNYm5PXfSmmtL6Vs6A_CZEtXCNICq_''"
    by (simp add: ex_lt ex_b64 a networkPrefix_def)
  from t have 2: "tonviewer (txToLinks (\<lambda>a. a) exampleTx False) =
      ''https://tonviewer.com/transaction/3e5f49798de239da5d8f80b4dc300204d37613e4203a3f7b877c04a88c81856b''"
    by (simp add: ex_hex networkPrefix_def)
  from t have 3: "tonscan (txToLinks (\<lambda>a. a) exampleTx False) = ''https://tonscan.org/tx/Pl9JeY3iOdpdj4C03DACBNN2E+QgOj97h3wEqIyBhWs=''"
    by (simp add: ex_b64 networkPrefix_def)
  from t have 4: "toncoin (txToLinks (\<lambda>a. a) exampleTx False) =
      ''https://explorer.toncoin.org/transaction?account=EQDa4VOnTYlLvDJ0gZjNYm5PXfSmmtL6Vs6A_CZEtXCNICq_&lt=47670702000009&hash=3e5f49798de239da5d8f80b4dc300204d37613e4203a3f7b877c04a88c81856b''"
    by (simp add: ex_lt ex_hex a)
  from t d have 5: "toncx (txToLinks (\<lambda>a. a) exampleTx False) \<noteq> toncx (txToLinks (\<lambda>a. a) otherTx True)
     \<and> tonviewer (txToLinks (\<lambda>a. a) exampleTx False) \<noteq> tonviewer (txToLinks (\<lambda>a. a) otherTx True)
     \<and> tonscan (txToLinks (\<lambda>a. a) exampleTx False) \<noteq> tonscan (txToLinks (\<lambda>a. a) otherTx True)
     \<and> toncoin (txToLinks (\<lambda>a. a) exampleTx False) \<noteq> toncoin (txToLinks (\<lambda>a. a) otherTx True)"
    by blast
  from 1 2 3 4 5 show ?thesis by (simp only: simp_thms)
qed

text \<open>
  Claim C1 as stated fails: the \<^verbatim>\<open>dton.io\<close> link is the same for two locators with
  different hashes (it always shows the hash of the example), and the \<^verbatim>\<open>tonviewer\<close> and
  \<^verbatim>\<open>tonscan\<close> links are the same for two locators that differ in the address only.
\<close>

theorem txToLinks_dton_counterexample:
  "hash exampleTx \<noteq> hash otherTx
   \<and> dton (txToLinks (\<lambda>a. a) exampleTx False) = dton (txToLinks (\<lambda>a. a) otherTx False)
   \<and> addr exampleTx \<noteq> addr (exampleTx\<lparr>addr := ''0:00''\<rparr>)
   \<and> tonviewer (txToLinks (\<lambda>a. a) exampleTx False)
       = tonviewer (txToLinks (\<lambda>a. a) (exampleTx\<lparr>addr := ''0:00''\<rparr>) False)
   \<and> tonscan (txToLinks (\<lambda>a. a) exampleTx False)
       = tonscan (txToLinks (\<lambda>a. a) (exampleTx\<lparr>addr := ''0:00''\<rparr>) False)"
  by (simp add: txToLinks_def exampleTx_def otherTx_def)

end
